theory Spec2Isabelle
  imports Complex_Main "HOL-Library.Sublist" "HOL-Library.Extended_Nat"
begin

section \<open>JavaScript values\<close>

text \<open>
  A parsed JSON document. An object is the list of its properties, read by the first
  entry of a key (\<open>JSON.parse\<close> yields objects whose keys are distinct). The value
  \<open>undefined\<close> is \<open>None\<close> of \<open>jsvalue\<close>.
\<close>

datatype json =
    JNull
  | JBool bool
  | JNumber rat
  | JString string
  | JArray "json list"
  | JObject "(string \<times> json) list"

type_synonym jsvalue = "json option"

text \<open>
  The result of the coercion \<open>Number(v)\<close>. The floating-point value is not computed:
  a number is kept as the coercion applied to its argument, so \<open>Number (Some (JNumber q))\<close>
  is the number \<open>q\<close> and \<open>Number (Some (JString s))\<close> the number the text \<open>s\<close> reads as.
\<close>

datatype jsnumber = Number jsvalue

datatype exn = TypeError | SyntaxError

text \<open>
  Reading a property, \<open>v.k\<close> or \<open>v[k]\<close>: a \<open>TypeError\<close> on \<open>undefined\<close> and \<open>null\<close>,
  the own property of an object, \<open>undefined\<close> on every other value. The keys the
  adapters read (\<open>name\<close>, \<open>datetime\<close>, \<open>gps\<close>, \<open>latitude\<close>, \<open>longitude\<close> and the
  pollutant keys) are not members of a prototype.
\<close>

fun get :: "jsvalue \<Rightarrow> string \<Rightarrow> exn + jsvalue" where
  "get None k = Inl TypeError"
| "get (Some JNull) k = Inl TypeError"
| "get (Some (JObject kvs)) k = Inr (map_of kvs k)"
| "get (Some v) k = Inr None"

text \<open>
  The operator \<open>k in v\<close>: a \<open>TypeError\<close> unless \<open>v\<close> is an object; an array is an object
  with none of the pollutant keys.
\<close>

fun has_prop :: "string \<Rightarrow> jsvalue \<Rightarrow> exn + bool" where
  "has_prop k (Some (JObject kvs)) = Inr (map_of kvs k \<noteq> None)"
| "has_prop k (Some (JArray xs)) = Inr False"
| "has_prop k v = Inl TypeError"

text \<open>Sequencing of computations that may raise: the first exception ends the rest.\<close>

definition andThen :: "exn + 'a \<Rightarrow> ('a \<Rightarrow> exn + 'b) \<Rightarrow> exn + 'b" where
  "andThen r f = (case r of Inl e \<Rightarrow> Inl e | Inr x \<Rightarrow> f x)"

text \<open>\<open>xs[i]\<close> on an array: \<open>undefined\<close> past its end.\<close>

definition item :: "'a list \<Rightarrow> nat \<Rightarrow> 'a option" where
  "item xs i = (if i < length xs then Some (xs ! i) else None)"

text \<open>
  \<open>s.split(sep)\<close> for a separator that is not empty: \<open>cur\<close> is the piece being read.
\<close>

function splitAt :: "string \<Rightarrow> string \<Rightarrow> string \<Rightarrow> string list" where
  "splitAt sep cur [] = [cur]"
| "splitAt sep cur (c # s) =
     (if sep \<noteq> [] \<and> prefix sep (c # s)
      then cur # splitAt sep [] (drop (length sep) (c # s))
      else splitAt sep (cur @ [c]) s)"
  by pat_completeness auto
termination
  by (relation "measure (\<lambda>(sep, cur, s). length s)") (auto simp: neq_Nil_conv)

definition split :: "string \<Rightarrow> string \<Rightarrow> string list" where
  "split sep s = splitAt sep [] s"

text \<open>
  \<open>a + b\<close> where each operand is a string or \<open>undefined\<close>. \<open>undefined + undefined\<close> is the
  number \<open>NaN\<close>, which differs from every string under \<open>===\<close> and reads \<open>NaN\<close> when it
  is appended to a string: the text \<open>NaN\<close> stands for it.
\<close>

definition js_plus :: "string option \<Rightarrow> string option \<Rightarrow> string" where
  "js_plus a b =
     (case a of
        None \<Rightarrow> (case b of None \<Rightarrow> ''NaN'' | Some y \<Rightarrow> ''undefined'' @ y)
      | Some x \<Rightarrow> (case b of None \<Rightarrow> x @ ''undefined'' | Some y \<Rightarrow> x @ y))"

text \<open>\<open>s.replace('.', '')\<close>: the text without its first full stop.\<close>

fun replace_dot :: "string \<Rightarrow> string" where
  "replace_dot [] = []"
| "replace_dot (c # s) = (if c = CHR ''.'' then s else c # replace_dot s)"

text \<open>\<open>s.toLowerCase()\<close> on the letters A to Z; every other character is kept.\<close>

definition toLowerCase :: "string \<Rightarrow> string" where
  "toLowerCase s =
     map (\<lambda>c. if 65 \<le> (of_char c :: nat) \<and> (of_char c :: nat) \<le> 90
              then char_of ((of_char c :: nat) + 32) else c) s"

text \<open>
  The double nearest to a natural number (ties go to the even mantissa), as
  \<open>Number\<close> reads a text of decimal digits: exact below \<open>2^53\<close>, rounded to 53 bits
  above, \<open>Infinity\<close> (here \<open>\<infinity>\<close>) from \<open>2^1024 - 2^970\<close> on. \<open>bits n\<close> is the number
  of binary digits of \<open>n\<close>.
\<close>

fun bits :: "nat \<Rightarrow> nat" where
  "bits 0 = 0"
| "bits (Suc n) = Suc (bits (Suc n div 2))"

definition double :: "nat \<Rightarrow> enat" where
  "double n =
     (if n < 2 ^ 53 then enat n
      else let e = bits n - 53;
               q = n div 2 ^ e;
               r = n mod 2 ^ e;
               q' = (if 2 ^ e < 2 * r \<or> (2 * r = 2 ^ e \<and> odd q) then q + 1 else q)
           in if 2 ^ 1024 \<le> q' * 2 ^ e then \<infinity> else enat (q' * 2 ^ e))"

text \<open>
  \<open>Number(v)\<close> where \<open>v\<close> is \<open>null\<close> (the number 0) or a text of decimal digits: the
  double of the number the digits denote.
\<close>

definition Number_digits :: "string option \<Rightarrow> enat" where
  "Number_digits v =
     (case v of
        None \<Rightarrow> 0
      | Some s \<Rightarrow> double (foldl (\<lambda>n c. 10 * n + ((of_char c :: nat) - 48)) 0 s))"

text \<open>
  Reading a key of an object literal, \<open>table[k]\<close>: an entry of the literal, or else
  the member of \<open>Object.prototype\<close> of that name (a function, or for \<open>__proto__\<close> the
  prototype itself; all of them truthy), or else \<open>undefined\<close>.
\<close>

datatype 'a found = Entry 'a | Member string

definition object_prototype :: "string list" where
  "object_prototype =
     [''constructor'', ''__defineGetter__'', ''__defineSetter__'', ''hasOwnProperty'',
      ''__lookupGetter__'', ''__lookupSetter__'', ''isPrototypeOf'', ''propertyIsEnumerable'',
      ''toString'', ''valueOf'', ''__proto__'', ''toLocaleString'']"

definition lookup :: "(string \<times> 'a) list \<Rightarrow> string \<Rightarrow> 'a found option" where
  "lookup table k =
     (case map_of table k of
        Some v \<Rightarrow> Some (Entry v)
      | None \<Rightarrow> if k \<in> set object_prototype then Some (Member k) else None)"

text \<open>\<open>_.findIndex\<close>: the first index whose element satisfies the predicate; \<open>None\<close> is \<open>-1\<close>.\<close>

fun findIndex :: "('a \<Rightarrow> bool) \<Rightarrow> 'a list \<Rightarrow> nat option" where
  "findIndex P [] = None"
| "findIndex P (x # xs) = (if P x then Some 0 else map_option Suc (findIndex P xs))"

section \<open>The libraries the adapters call\<close>

text \<open>
  moment-timezone, taken as given: \<open>'m\<close> is the type of its moment objects.
  \<^item> \<open>tz input zone\<close> is \<open>moment.tz(input, zone)\<close>;
  \<^item> \<open>tz_format input fmt zone\<close> is \<open>moment.tz(input, fmt, zone)\<close>;
  \<^item> \<open>in_tz m zone\<close> is \<open>m.tz(zone)\<close>;
  \<^item> \<open>add m n u\<close> and \<open>subtract m n u\<close> are \<open>m.add(n, u)\<close> and \<open>m.subtract(n, u)\<close>:
    the moment they leave in \<open>m\<close>;
  \<^item> \<open>toDate m\<close> is \<open>m.toDate()\<close>, \<open>format m\<close> is \<open>m.format()\<close> and
    \<open>format_as m fmt\<close> is \<open>m.format(fmt)\<close>.
\<close>

record 'm moment =
  tz :: "jsvalue \<Rightarrow> string \<Rightarrow> 'm"
  tz_format :: "string \<Rightarrow> string \<Rightarrow> string \<Rightarrow> 'm"
  in_tz :: "'m \<Rightarrow> string \<Rightarrow> 'm"
  add :: "'m \<Rightarrow> int \<Rightarrow> string \<Rightarrow> 'm"
  subtract :: "'m \<Rightarrow> int \<Rightarrow> string \<Rightarrow> 'm"
  toDate :: "'m \<Rightarrow> int option"
  format :: "'m \<Rightarrow> string"
  format_as :: "'m \<Rightarrow> string \<Rightarrow> string"

text \<open>
  The document \<open>cheerio.load\<close> returns, as far as nsw.js reads it. Of a cell:
  \<^item> \<open>colspan\<close> is \<open>Number($(this).attr('colspan'))\<close>, \<open>None\<close> when that is \<open>NaN\<close>
    (no such attribute, or one that is no number); whole numbers only;
  \<^item> \<open>anchors\<close> is \<open>$(this).find('a').length\<close>;
  \<^item> \<open>pollutant\<close> is group 1 of \<open>$(this).html().match(new RegExp('</a><br>+(.+)'))\<close>,
    \<open>None\<close> when \<open>match\<close> returns \<open>null\<close>;
  \<^item> \<open>hours\<close> is group 1 of \<open>$(this).html().match(new RegExp('([0-9]+)-hour'))\<close>, a text
    of digits, \<open>None\<close> when \<open>match\<close> returns \<open>null\<close>;
  \<^item> \<open>text\<close> is \<open>$(this).text()\<close>.
\<close>

record cell =
  colspan :: "int option"
  anchors :: nat
  pollutant :: "string option"
  hours :: "string option"
  "text" :: string

text \<open>
  Of a row of \<open>table.aqi\<close>: its cells, \<open>$(this).find('.site').length\<close>,
  \<open>$('.site', this).text()\<close>, \<open>$(this).find('.region').length\<close> and
  \<open>$('.region', this).text()\<close>.
\<close>

record row =
  children :: "cell list"
  site_length :: nat
  site_text :: string
  region_length :: nat
  region_text :: string

text \<open>
  Of the document: \<open>$('td.date', this).html()\<close> (\<open>None\<close> is \<open>null\<close>: no such cell) and
  the rows \<open>$('table.aqi tr')\<close> selects.
\<close>

record document =
  date_html :: "string option"
  rows :: "row list"

record indexParam =
  col :: int
  parameter :: string
  avgPeriod :: "string option"

section \<open>The measurement objects both adapters build\<close>

text \<open>
  \<open>utc\<close> is a JavaScript \<open>Date\<close>: its time value in milliseconds since the epoch, or
  \<open>None\<close> for an invalid date. \<open>local\<close> is the text \<open>moment.format()\<close> returns.
\<close>

record stamp =
  utc :: "int option"
  local :: string

record coords =
  latitude :: jsnumber
  longitude :: jsnumber

record attrib =
  name :: string
  url :: string

record period =
  "value" :: enat
  unit :: string

text \<open>
  One object type serves both adapters. A key that an adapter never sets is \<open>None\<close>:
  \<open>country\<close>, \<open>sourceName\<close>, \<open>sourceType\<close>, \<open>mobile\<close> and \<open>coordinates\<close>. \<open>coordinates\<close>,
  when set, is an object \<open>{latitude, longitude}\<close> (\<open>Entry\<close>) or what the table lookup of
  the HTML adapter found in \<open>Object.prototype\<close> (\<open>Member\<close>). \<open>unit\<close> is always set, to the
  result of a table lookup: an entry of the table, a member of \<open>Object.prototype\<close>, or
  \<open>undefined\<close> (\<open>None\<close>). \<open>location\<close> is \<open>row.name\<close> in the JSON adapter (any JSON value, or
  \<open>undefined\<close>) and the site's text in the HTML adapter.
\<close>

record measurement =
  location :: jsvalue
  city :: string
  country :: "string option"
  date :: stamp
  sourceName :: "string option"
  sourceType :: "string option"
  mobile :: "bool option"
  coordinates :: "coords found option"
  attribution :: "attrib list"
  averagingPeriod :: period
  parameter :: string
  "value" :: jsnumber
  unit :: "string found option"

record result =
  name :: string
  measurements :: "measurement list"

text \<open>The source descriptor the caller hands to \<open>fetchData\<close>.\<close>

record source =
  name :: string
  url :: string

section \<open>The JSON adapter (au_act)\<close>

text \<open>\<open>parseDate\<close>: one moment, read twice.\<close>

definition parseDate_act :: "'m moment \<Rightarrow> jsvalue \<Rightarrow> stamp" where
  "parseDate_act M string =
     (let date = tz M string ''Australia/Sydney''
      in \<lparr>utc = toDate M date, local = format M date\<rparr>)"

text \<open>
  The tables \<open>types\<close> and \<open>units\<close>, in the order of their keys. The micro sign and the
  superscript three of the unit of particulates are written as their UTF-8 bytes.
\<close>

definition types :: "(string \<times> string) list" where
  "types = [(''no2'', ''no2''), (''o3_1hr'', ''o3''), (''co'', ''co''),
            (''pm10'', ''pm10''), (''pm2_5'', ''pm25'')]"

definition micrograms :: string where
  "micrograms = [CHR 0xC2, CHR 0xB5] @ ''g/m'' @ [CHR 0xC2, CHR 0xB3]"

definition units_act :: "(string \<times> string) list" where
  "units_act = [(''no2'', ''ppm''), (''o3'', ''ppm''), (''co'', ''ppm''),
                (''pm10'', micrograms), (''pm25'', micrograms)]"

text \<open>
  \<open>baseMeasurement\<close>, whose properties are evaluated in the order they are written;
  \<open>parameter\<close>, \<open>value\<close> and \<open>unit\<close> are set on each clone and hold nothing yet.
\<close>

definition baseMeasurement :: "'m moment \<Rightarrow> source \<Rightarrow> jsvalue \<Rightarrow> exn + measurement" where
  "baseMeasurement M src row =
     andThen (get row ''name'') (\<lambda>row_name.
     andThen (get row ''datetime'') (\<lambda>row_datetime.
     andThen (get row ''gps'') (\<lambda>gps.
     andThen (get gps ''latitude'') (\<lambda>lat.
     andThen (get row ''gps'') (\<lambda>gps'.
     andThen (get gps' ''longitude'') (\<lambda>lon.
       Inr \<lparr>location = row_name,
            city = ''Canberra'',
            country = Some ''AU'',
            date = parseDate_act M row_datetime,
            sourceName = Some (source.name src),
            sourceType = Some ''government'',
            mobile = Some False,
            coordinates = Some (Entry \<lparr>latitude = Number lat, longitude = Number lon\<rparr>),
            attribution =
              [\<lparr>attrib.name = ''Health Protection Service, ACT Government'',
                attrib.url = ''https://www.data.act.gov.au/Environment/Air-Quality-Monitoring-Data/94a5-zqnn''\<rparr>],
            averagingPeriod = \<lparr>period.value = 1, period.unit = ''hours''\<rparr>,
            parameter = [],
            value = Number None,
            unit = None\<rparr>))))))"

text \<open>
  \<open>Object.keys(types).forEach\<close>: \<open>ts\<close> are the entries of \<open>types\<close> still to visit, the
  result the measurements pushed for them.
\<close>

fun eachType :: "measurement \<Rightarrow> jsvalue \<Rightarrow> (string \<times> string) list \<Rightarrow> exn + measurement list" where
  "eachType base row [] = Inr []"
| "eachType base row ((type, p) # ts) =
     andThen (has_prop type row) (\<lambda>present.
       if present
       then andThen (get row type) (\<lambda>v.
            andThen (eachType base row ts) (\<lambda>ms.
              Inr (base\<lparr>parameter := p, value := Number v, unit := lookup units_act p\<rparr> # ms)))
       else eachType base row ts)"

text \<open>The function \<open>data.forEach\<close> is given: the measurements one row pushes.\<close>

definition eachRow_act :: "'m moment \<Rightarrow> source \<Rightarrow> jsvalue \<Rightarrow> exn + measurement list" where
  "eachRow_act M src row =
     andThen (baseMeasurement M src row) (\<lambda>base. eachType base row types)"

text \<open>\<open>data.forEach\<close>: an exception in one row ends the loop and leaves \<open>formatData\<close>.\<close>

fun forEach :: "('a \<Rightarrow> exn + 'b list) \<Rightarrow> 'a list \<Rightarrow> exn + 'b list" where
  "forEach f [] = Inr []"
| "forEach f (x # xs) =
     andThen (f x) (\<lambda>ys. andThen (forEach f xs) (\<lambda>zs. Inr (ys @ zs)))"

text \<open>
  \<open>formatData\<close>: \<open>data.forEach\<close> is a function only when \<open>data\<close> is an array; \<open>flatten\<close>
  leaves a list of objects as it is.
\<close>

definition formatData_act :: "'m moment \<Rightarrow> json \<Rightarrow> source \<Rightarrow> exn + result" where
  "formatData_act M data src =
     (case data of
        JArray rs \<Rightarrow>
          andThen (forEach (\<lambda>r. eachRow_act M src (Some r)) rs) (\<lambda>ms.
            Inr \<lparr>result.name = ''unused'', measurements = ms\<rparr>)
      | _ \<Rightarrow> Inl TypeError)"

text \<open>
  The request \<open>fetchData\<close> sends: \<open>now\<close> is the moment \<open>moment()\<close> returns, the current
  time.
\<close>

record request =
  uri :: string
  qs :: "(string \<times> string) list"

definition timeAgo :: "'m moment \<Rightarrow> 'm \<Rightarrow> string" where
  "timeAgo M now =
     format_as M (subtract M (in_tz M now ''Australia/Sydney'') 1 ''days'') ''YYYY-MM-DDTHH:mm:ss''"

definition request_act :: "'m moment \<Rightarrow> 'm \<Rightarrow> source \<Rightarrow> request" where
  "request_act M now src =
     \<lparr>uri = source.url src,
      qs = [(''$query'',
             ''select *, :id where (`datetime` > '' @ [CHR 0x27] @ timeAgo M now @ [CHR 0x27]
               @ '') order by `datetime` desc limit 1000'')]\<rparr>"

section \<open>The HTML adapter (nsw)\<close>

text \<open>
  \<open>parseDate\<close>: the third part of the header, split at spaces, gives the hour the
  range ends at (its pieces 2 and 3). \<open>d[2].split\<close> raises when the header has fewer
  than three parts. \<open>date.add\<close> changes the moment before it is read twice.
\<close>

definition dateOffset :: "string \<Rightarrow> int" where
  "dateOffset time = (if time = ''12am'' then 1 else 0)"

definition parseDate_nsw :: "'m moment \<Rightarrow> string \<Rightarrow> exn + stamp" where
  "parseDate_nsw M dateString =
     (let d = split ''<br>'' dateString in
      case item d 2 of
        None \<Rightarrow> Inl TypeError
      | Some d2 \<Rightarrow>
          let timeString = split '' '' d2;
              time = js_plus (item timeString 2) (item timeString 3);
              date = tz_format M (js_plus (item d 1) (Some time)) ''D MMMM YYYYha'' ''Australia/Melbourne'';
              date' = add M date (dateOffset time) ''day''
          in Inr \<lparr>utc = toDate M date', local = format M date'\<rparr>)"

definition units_nsw :: "(string \<times> string) list" where
  "units_nsw = [(''o3'', ''pphm''), (''no2'', ''pphm''), (''co'', ''ppm''),
                (''neph'', ''Bsp, 10-4 m-1''), (''so2'', ''pphm''),
                (''pm25'', micrograms), (''pm10'', micrograms)]"

text \<open>The table \<open>coordinates\<close>: site, latitude, longitude.\<close>

definition coordinates_nsw :: "(string \<times> rat \<times> rat) list" where
  "coordinates_nsw =
    [
     (''Bargo'', -34.3075, 150.58),
     (''Bringelly'', -33.9194444, 150.7611111),
     (''Camden'', -34.0416667, 150.6902778),
     (''Campbelltown West'', -34.0666667, 150.7952778),
     (''Liverpool'', -33.9327778, 150.9058333),
     (''Oakdale'', -34.0530556, 150.4972222),
     (''Chullora'', -33.8938889, 151.0452778),
     (''Earlwood'', -33.9177778, 151.1347222),
     (''Lindfield'', -33.7827778, 151.1500000),
     (''Randwick'', -33.9333333, 151.2419444),
     (''Rozelle'', -33.8658333, 151.1625),
     (''Prospect'', -33.7947222, 150.9125),
     (''Richmond'', -33.6183333, 150.7458333),
     (''Vineyard'', -33.6577778, 150.8466667),
     (''St Marys'', -33.7972222, 150.7658333),
     (''Albion Park Sth'', -34.5805556, 150.7816667),
     (''Kembla Grange'', -34.4763889, 150.8175),
     (''Wollongong'', -34.4186111, 150.8863889),
     (''Muswellbrook'', -32.2716667, 150.8858333),
     (''Beresfield'', -32.7983333, 151.66),
     (''Newcastle'', -32.9325, 151.7583333),
     (''Wallsend'', -32.8961111, 151.6691667),
     (''Albury'', -36.0516667, 146.9741667),
     (''Wagga Wagga Nth'', -35.1044444, 147.3602778),
     (''Bathurst'', -33.4033333, 149.5733333),
     (''Tamworth'', -31.1105556, 150.9141667),
     (''Wyong'', -32.195, 150.6736111),
     (''Singleton'', -32.5297222, 151.1497222),
     (''Cook And Phillip'', -33.872500, 151.213333),
     (''Macquarie Park'', -33.765278, 151.117806),
     (''Parramatta North'', -33.799444, 150.997778),
     (''Rouse Hill'', -33.682778, 150.903611),
     (''Orange'', -33.274444, 149.094444),
     (''Armidale'', -30.508333, 151.661389),
     (''Gunnedah'', -30.981667, 150.260556),
     (''Narrabri'', -30.318333, 149.829167),
     (''Goulburn'', -34.734444, 149.724167)]"

text \<open>\<open>coordinates[site]\<close>: the entry of the table as an object, or a member of the prototype.\<close>

definition coordinates_of :: "string \<Rightarrow> coords found option" where
  "coordinates_of site =
     lookup (map (\<lambda>(name, lat, lon).
                    (name, \<lparr>latitude = Number (Some (JNumber lat)),
                            longitude = Number (Some (JNumber lon))\<rparr>))
               coordinates_nsw)
       site"

text \<open>\<open>Number($(this).attr('colspan')) || 1\<close>: \<open>NaN\<close> and 0 give 1.\<close>

definition colIncrement :: "cell \<Rightarrow> int" where
  "colIncrement c = (case colspan c of None \<Rightarrow> 1 | Some n \<Rightarrow> if n = 0 then 1 else n)"

text \<open>
  Row 0, the pollutant names: the loop over its cells. \<open>match(regExp)[1]\<close> raises when
  a cell with an anchor does not match.
\<close>

fun pollutantCells :: "cell list \<Rightarrow> int \<Rightarrow> indexParam list \<Rightarrow> exn + indexParam list" where
  "pollutantCells [] colCounter indexParams = Inr indexParams"
| "pollutantCells (c # cs) colCounter indexParams =
     (let colCounter' = colCounter + colIncrement c in
      if anchors c \<noteq> 0
      then (case pollutant c of
              None \<Rightarrow> Inl TypeError
            | Some g \<Rightarrow>
                pollutantCells cs colCounter'
                  (indexParams @
                     [\<lparr>col = colCounter', indexParam.parameter = toLowerCase (replace_dot g),
                       avgPeriod = None\<rparr>]))
      else pollutantCells cs colCounter' indexParams)"

text \<open>
  Row 1, the averaging periods: the assignment raises when no pollutant was recorded
  for the column (\<open>indexParams[-1]\<close> is \<open>undefined\<close>).
\<close>

fun periodCells :: "cell list \<Rightarrow> int \<Rightarrow> indexParam list \<Rightarrow> exn + indexParam list" where
  "periodCells [] colCounter indexParams = Inr indexParams"
| "periodCells (c # cs) colCounter indexParams =
     (let colCounter' = colCounter + colIncrement c in
      case hours c of
        None \<Rightarrow> periodCells cs colCounter' indexParams
      | Some h \<Rightarrow>
          (case findIndex (\<lambda>p. col p = colCounter') indexParams of
             None \<Rightarrow> Inl TypeError
           | Some i \<Rightarrow>
               periodCells cs colCounter'
                 (indexParams [i := (indexParams ! i)\<lparr>avgPeriod := Some h\<rparr>])))"

text \<open>
  \<open>base\<close>, the properties of a station; \<open>_.cloneDeep(base)\<close> is \<open>base\<close>, a value. The
  keys it lacks are \<open>None\<close>; \<open>parameter\<close>, \<open>unit\<close>, \<open>value\<close> and \<open>averagingPeriod\<close> are
  set on each clone and hold nothing yet.
\<close>

definition base_nsw :: "string \<Rightarrow> string \<Rightarrow> stamp \<Rightarrow> measurement" where
  "base_nsw region site parsed =
     \<lparr>location = Some (JString site),
      city = region,
      country = None,
      date = parsed,
      sourceName = None,
      sourceType = None,
      mobile = None,
      coordinates = coordinates_of site,
      attribution =
        [\<lparr>attrib.name = ''State of New South Wales (Department of Planning, Industry and Environment)'',
          attrib.url = ''https://www.dpie.nsw.gov.au/''\<rparr>],
      averagingPeriod = \<lparr>period.value = 0, period.unit = []\<rparr>,
      parameter = [],
      value = Number None,
      unit = None\<rparr>"

text \<open>The cells of a row with a site: the measurements they add to \<open>measurements\<close>.\<close>

fun siteCells ::
  "indexParam list \<Rightarrow> measurement \<Rightarrow> cell list \<Rightarrow> int \<Rightarrow> measurement list \<Rightarrow> measurement list" where
  "siteCells indexParams base [] colCounter ms = ms"
| "siteCells indexParams base (c # cs) colCounter ms =
     (let colCounter' = colCounter + colIncrement c in
      case findIndex (\<lambda>p. col p = colCounter') indexParams of
        None \<Rightarrow> siteCells indexParams base cs colCounter' ms
      | Some i \<Rightarrow>
          if text c \<noteq> []
          then (let p = indexParams ! i;
                    m = base\<lparr>parameter := indexParam.parameter p,
                             unit := lookup units_nsw (indexParam.parameter p),
                             value := Number (Some (JString (text c))),
                             averagingPeriod :=
                               \<lparr>period.value = Number_digits (avgPeriod p), period.unit = ''hours''\<rparr>\<rparr>
                in siteCells indexParams base cs colCounter' (ms @ [m]))
          else siteCells indexParams base cs colCounter' ms)"

text \<open>
  \<open>$('table.aqi tr').each\<close>: \<open>parsed\<close> is the variable \<open>date\<close>, \<open>idy\<close> the index of the row, \<open>indexParams\<close>, \<open>region\<close>
  and \<open>ms\<close> (\<open>measurements\<close>) are the variables the rows share.
\<close>

fun eachRow_nsw ::
  "stamp \<Rightarrow> row list \<Rightarrow> nat \<Rightarrow> indexParam list \<Rightarrow> string \<Rightarrow> measurement list
     \<Rightarrow> exn + measurement list" where
  "eachRow_nsw parsed [] idy indexParams region ms = Inr ms"
| "eachRow_nsw parsed (r # rs) idy indexParams region ms =
     (if idy = 0
      then andThen (pollutantCells (children r) 0 indexParams) (\<lambda>indexParams'.
             eachRow_nsw parsed rs (Suc idy) indexParams' region ms)
      else if idy = 1
      then andThen (periodCells (children r) 0 indexParams) (\<lambda>indexParams'.
             eachRow_nsw parsed rs (Suc idy) indexParams' region ms)
      else if site_length r \<noteq> 0
      then (let region' = (if region_text r \<noteq> [] then region_text r else region);
                colCounter = (if region_length r = 0 then 1 else 0);
                base = base_nsw region' (site_text r) parsed
            in eachRow_nsw parsed rs (Suc idy) indexParams region'
                 (siteCells indexParams base (children r) colCounter ms))
      else eachRow_nsw parsed rs (Suc idy) indexParams region ms)"

section \<open>nsw.js: keeping the shortest averaging period (lines 177-191)\<close>

text \<open>\<open>_.matches({'parameter': m.parameter, 'location': m.location})\<close> applied to \<open>x\<close>.\<close>

definition matches :: "measurement \<Rightarrow> measurement \<Rightarrow> bool" where
  "matches m x \<longleftrightarrow> parameter x = parameter m \<and> location x = location m"

text \<open>\<open>xs.splice(i, 1)\<close>: the list without its element at index \<open>i\<close>.\<close>

definition splice1 :: "nat \<Rightarrow> 'a list \<Rightarrow> 'a list" where
  "splice1 i xs = take i xs @ drop (Suc i) xs"

text \<open>
  The body of the loop \<open>for (var m in measurements)\<close>: \<open>fm\<close> is \<open>finalMeasurements\<close>
  before the step, the result is \<open>finalMeasurements\<close> after it.
\<close>

definition keepShortest :: "measurement list \<Rightarrow> measurement \<Rightarrow> measurement list" where
  "keepShortest fm m =
     (case findIndex (matches m) fm of
        None \<Rightarrow> fm @ [m]
      | Some match \<Rightarrow>
          if period.value (averagingPeriod m) < period.value (averagingPeriod (fm ! match))
          then splice1 match (fm @ [m])
          else fm)"

definition finalMeasurements :: "measurement list \<Rightarrow> measurement list" where
  "finalMeasurements ms = foldl keepShortest [] ms"

text \<open>The pair the loop groups by, and the number it compares.\<close>

definition pair_of :: "measurement \<Rightarrow> jsvalue \<times> string" where
  "pair_of m = (location m, parameter m)"

definition hours_of :: "measurement \<Rightarrow> enat" where
  "hours_of m = period.value (averagingPeriod m)"

section \<open>nsw.js: the utilities applied to the list, and formatData\<close>

text \<open>
  Modelled from the spec: \<open>removeUnwantedParameters\<close> of \<open>../lib/utils\<close>, which is not
  among the sources; the spec calls it "a parameter-allowlist filter utility". The
  allowlist \<open>acceptable\<close> is a parameter.
\<close>

definition removeUnwantedParameters :: "string list \<Rightarrow> measurement list \<Rightarrow> measurement list" where
  "removeUnwantedParameters acceptable ms = filter (\<lambda>m. parameter m \<in> set acceptable) ms"

text \<open>
  Modelled from the spec: \<open>convertUnits\<close> of \<open>../lib/utils\<close>, which is not among the
  sources; the spec calls it "a unit-conversion utility", applied to the accumulated
  list. It gives each measurement a unit and a value; the conversion \<open>conv\<close> of a unit
  and a value is a parameter.
\<close>

definition convertUnits ::
  "(string found option \<times> jsnumber \<Rightarrow> string found option \<times> jsnumber) \<Rightarrow> measurement list \<Rightarrow> measurement list" where
  "convertUnits conv ms =
     map (\<lambda>m. m\<lparr>unit := fst (conv (unit m, value m)), value := snd (conv (unit m, value m))\<rparr>) ms"

text \<open>
  \<open>formatData\<close> of nsw.js, on the document \<open>cheerio.load(data)\<close> returns.
  \<open>$('td.date', this).html()\<close> is \<open>null\<close> when the document has no such cell, and
  \<open>parseDate\<close> raises on it.
\<close>

definition formatData_nsw ::
  "'m moment \<Rightarrow> string list \<Rightarrow> (string found option \<times> jsnumber \<Rightarrow> string found option \<times> jsnumber)
     \<Rightarrow> document \<Rightarrow> exn + result" where
  "formatData_nsw M acceptable conv doc =
     (case date_html doc of
        None \<Rightarrow> Inl TypeError
      | Some dateString \<Rightarrow>
          andThen (parseDate_nsw M dateString) (\<lambda>date.
          andThen (eachRow_nsw date (rows doc) 0 [] [] []) (\<lambda>ms.
            Inr \<lparr>result.name = ''unused'',
                 measurements =
                   convertUnits conv (removeUnwantedParameters acceptable (finalMeasurements ms))\<rparr>)))"

section \<open>fetchData: the callback of the request\<close>

text \<open>
  A call of \<open>cb\<close>: the message of its first argument (\<open>None\<close> is \<open>null\<close>) and its second
  argument (\<open>None\<close> is \<open>undefined\<close>: not given). The callback is a function of the
  caller: \<open>cb a\<close> is \<open>None\<close> when the call returns and \<open>Some x\<close> when it throws \<open>x\<close>.
\<close>

type_synonym cb_call = "string option \<times> result option"

datatype 'x thrown = Raised exn | Thrown 'x

text \<open>What running the callback of the request does: the calls of \<open>cb\<close> in their
  order, and the exception that leaves it, if one does.\<close>

record 'x run =
  calls :: "cb_call list"
  leaves :: "'x thrown option"

record response =
  statusCode :: int

text \<open>A call of \<open>cb\<close> outside the \<open>try\<close> block: what it throws leaves.\<close>

definition call :: "(cb_call \<Rightarrow> 'x option) \<Rightarrow> cb_call \<Rightarrow> 'x run" where
  "call cb a = \<lparr>calls = [a], leaves = map_option Thrown (cb a)\<rparr>"

text \<open>
  A call of \<open>cb\<close> inside the \<open>try\<close> block: what it throws is caught, and the \<open>catch\<close>
  block calls \<open>cb\<close> again.
\<close>

definition call_in_try :: "(cb_call \<Rightarrow> 'x option) \<Rightarrow> cb_call \<Rightarrow> 'x run" where
  "call_in_try cb a =
     (case cb a of
        None \<Rightarrow> \<lparr>calls = [a], leaves = None\<rparr>
      | Some x \<Rightarrow>
          \<lparr>calls = [a, (Some ''Unknown adapter error.'', None)],
           leaves = map_option Thrown (cb (Some ''Unknown adapter error.'', None))\<rparr>)"

text \<open>
  The function both adapters hand to \<open>request\<close>; \<open>format body\<close> is what the \<open>try\<close> block
  computes before it looks at \<open>data\<close>: an exception, \<open>undefined\<close> or the data. \<open>err\<close> is
  \<open>None\<close> for \<open>null\<close>, \<open>res\<close> is \<open>None\<close> for \<open>undefined\<close>: reading \<open>res.statusCode\<close> then
  raises, outside the \<open>try\<close> block.
\<close>

definition onResponse ::
  "(string \<Rightarrow> exn + result option) \<Rightarrow> (cb_call \<Rightarrow> 'x option)
     \<Rightarrow> 'e option \<Rightarrow> response option \<Rightarrow> string \<Rightarrow> 'x run" where
  "onResponse format_body cb err res body =
     (if err \<noteq> None then call cb (Some ''Failure to load data url.'', None)
      else case res of
        None \<Rightarrow> \<lparr>calls = [], leaves = Some (Raised TypeError)\<rparr>
      | Some r \<Rightarrow>
          if statusCode r \<noteq> 200 then call cb (Some ''Failure to load data url.'', None)
          else (case format_body body of
                  Inl e \<Rightarrow> call cb (Some ''Unknown adapter error.'', None)
                | Inr None \<Rightarrow> call_in_try cb (Some ''Failure to parse data.'', None)
                | Inr (Some data) \<Rightarrow> call_in_try cb (None, Some data)))"

text \<open>
  \<open>fetchData\<close> of nsw.js, from the reply of the request on: \<open>load\<close> is \<open>cheerio.load\<close>.
  The request itself is \<open>request(source.url, ...)\<close>.
\<close>

definition fetchData_nsw ::
  "'m moment \<Rightarrow> (string \<Rightarrow> document) \<Rightarrow> string list
     \<Rightarrow> (string found option \<times> jsnumber \<Rightarrow> string found option \<times> jsnumber)
     \<Rightarrow> source \<Rightarrow> (cb_call \<Rightarrow> 'x option) \<Rightarrow> 'e option \<Rightarrow> response option \<Rightarrow> string \<Rightarrow> 'x run" where
  "fetchData_nsw M load acceptable conv src cb err res body =
     onResponse (\<lambda>b. map_sum id Some (formatData_nsw M acceptable conv (load b))) cb err res body"

text \<open>
  \<open>fetchData\<close> of the JSON adapter, from the reply of the request on: \<open>parse\<close> is
  \<open>JSON.parse\<close>, \<open>None\<close> where it raises a \<open>SyntaxError\<close>.
\<close>

definition fetchData_act ::
  "'m moment \<Rightarrow> (string \<Rightarrow> json option)
     \<Rightarrow> source \<Rightarrow> (cb_call \<Rightarrow> 'x option) \<Rightarrow> 'e option \<Rightarrow> response option \<Rightarrow> string \<Rightarrow> 'x run" where
  "fetchData_act M parse src cb err res body =
     onResponse
       (\<lambda>b. case parse b of
               None \<Rightarrow> Inl SyntaxError
             | Some data \<Rightarrow> map_sum id Some (formatData_act M data src))
       cb err res body"

section \<open>Predicates of the specification\<close>

text \<open>
  The callback was called exactly once, with an error and no data or with no error
  and data.
\<close>

definition exactly_once :: "cb_call list \<Rightarrow> bool" where
  "exactly_once cs =
     (case cs of [a] \<Rightarrow> (fst a = None) \<noteq> (snd a = None) | _ \<Rightarrow> False)"

text \<open>
  A row of the JSON source on which the function given to \<open>data.forEach\<close> does not
  raise: an object whose \<open>gps\<close> is neither missing nor \<open>null\<close>.
\<close>

definition valid_row :: "jsvalue \<Rightarrow> bool" where
  "valid_row row =
     (case row of
        Some (JObject kvs) \<Rightarrow>
          (case map_of kvs ''gps'' of None \<Rightarrow> False | Some JNull \<Rightarrow> False | Some g \<Rightarrow> True)
      | _ \<Rightarrow> False)"

text \<open>Both fields of a date are read from the moment \<open>mo\<close>.\<close>

definition read_from :: "'m moment \<Rightarrow> 'm \<Rightarrow> stamp \<Rightarrow> bool" where
  "read_from M mo s \<longleftrightarrow> utc s = toDate M mo \<and> local s = format M mo"

text \<open>
  A measurement has every key of the canonical schema: the keys an adapter may leave
  out are set, \<open>coordinates\<close> to an object \<open>{latitude, longitude}\<close> (the others are set by
  both adapters on every path).
\<close>

definition canonical :: "measurement \<Rightarrow> bool" where
  "canonical m \<longleftrightarrow>
     country m \<noteq> None \<and> sourceName m \<noteq> None \<and> sourceType m \<noteq> None \<and> mobile m \<noteq> None \<and>
     (case coordinates m of Some (Entry c) \<Rightarrow> True | _ \<Rightarrow> False)"

section \<open>Sample inputs\<close>


text \<open>
  A stand-in for moment-timezone: a moment is the text it was read from and the days
  added to it; its date is the number of those days in milliseconds.
\<close>

definition stub_moment :: "(string \<times> int) moment" where
  "stub_moment =
     \<lparr>tz = (\<lambda>input zone. ((case input of Some (JString s) \<Rightarrow> s | _ \<Rightarrow> []), 0)),
      tz_format = (\<lambda>input fmt zone. (input, 0)),
      in_tz = (\<lambda>m zone. m),
      add = (\<lambda>m n u. (fst m, snd m + n)),
      subtract = (\<lambda>m n u. (fst m, snd m - n)),
      toDate = (\<lambda>m. Some (snd m * 86400000)),
      format = (\<lambda>m. fst m),
      format_as = (\<lambda>m fmt. fst m)\<rparr>"

text \<open>A row of the JSON source with two of the pollutant keys, and a row with none.\<close>

definition monash :: json where
  "monash =
     JObject [(''name'', JString ''Monash''),
              (''gps'', JObject [(''latitude'', JString ''-35.418302''),
                                 (''longitude'', JString ''149.094018'')]),
              (''datetime'', JString ''2020-01-01T00:00:00.000''),
              (''no2'', JString ''0.003''),
              (''pm2_5'', JString ''12.1'')]"

definition florey :: json where
  "florey =
     JObject [(''name'', JString ''Florey''),
              (''gps'', JObject [(''latitude'', JString ''-35.220606''),
                                 (''longitude'', JString ''149.043539'')]),
              (''datetime'', JString ''2020-01-01T00:00:00.000'')]"

definition act_source :: source where
  "act_source = \<lparr>source.name = ''Australia - ACT'', source.url = ''https://www.data.act.gov.au/resource/ufmq-tpn8.json''\<rparr>"

text \<open>
  A page of the HTML source: two ozone columns (1-hour and 4-hour) and one for
  nitrogen dioxide; a site in the row that names its region and a site in a row that
  does not, without a 1-hour ozone reading.
\<close>

definition plain :: "string \<Rightarrow> cell" where
  "plain t = \<lparr>colspan = None, anchors = 0, pollutant = None, hours = None, text = t\<rparr>"

definition aqi_page :: document where
  "aqi_page =
     \<lparr>date_html = Some ''Hourly readings<br>13 December 2015<br>11 - 12 am'',
      rows =
        [\<lparr>children =
            [(plain ''Region'')\<lparr>colspan := Some 2\<rparr>,
             \<lparr>colspan = None, anchors = 1, pollutant = Some ''O3'', hours = None, text = ''OZONE O3''\<rparr>,
             \<lparr>colspan = None, anchors = 1, pollutant = Some ''O3'', hours = None, text = ''OZONE O3''\<rparr>,
             \<lparr>colspan = None, anchors = 1, pollutant = Some ''NO2'', hours = None, text = ''NITROGEN DIOXIDE NO2''\<rparr>],
          site_length = 0, site_text = [], region_length = 0, region_text = []\<rparr>,
         \<lparr>children =
            [(plain [])\<lparr>colspan := Some 2\<rparr>,
             \<lparr>colspan = None, anchors = 0, pollutant = None, hours = Some ''1'', text = ''1-hour average''\<rparr>,
             \<lparr>colspan = None, anchors = 0, pollutant = None, hours = Some ''4'', text = ''4-hour rolling average''\<rparr>,
             \<lparr>colspan = None, anchors = 0, pollutant = None, hours = Some ''1'', text = ''1-hour average''\<rparr>],
          site_length = 0, site_text = [], region_length = 0, region_text = []\<rparr>,
         \<lparr>children = [plain ''Sydney East'', plain ''Rozelle'', plain ''2.1'', plain ''1.9'', plain ''0.4''],
          site_length = 1, site_text = ''Rozelle'', region_length = 1, region_text = ''Sydney East''\<rparr>,
         \<lparr>children = [plain ''Glebe'', plain [], plain ''1.5'', plain ''0.3''],
          site_length = 1, site_text = ''Glebe'', region_length = 0, region_text = []\<rparr>]\<rparr>"

text \<open>
  A stand-in for \<open>JSON.parse\<close>, right on the two bodies it is used on: the empty array
  and a text that is no JSON. And a stand-in for \<open>cheerio.load\<close> that returns the page
  above for every body but the empty one, which has no table and no date cell.
\<close>

definition stub_parse :: "string \<Rightarrow> json option" where
  "stub_parse body = (if body = ''[]'' then Some (JArray []) else None)"

definition stub_load :: "string \<Rightarrow> document" where
  "stub_load body = (if body = [] then \<lparr>date_html = None, rows = []\<rparr> else aqi_page)"

definition nsw_source :: source where
  "nsw_source = \<lparr>source.name = ''Australia - New South Wales'',
                  source.url = ''https://airquality.environment.nsw.gov.au/aquisnetnswphp/getPage.php?reportid=2''\<rparr>"

text \<open>A callback that returns, and one that throws when it is handed data.\<close>

definition quiet_cb :: "cb_call \<Rightarrow> string option" where
  "quiet_cb a = None"

definition throwing_cb :: "cb_call \<Rightarrow> string option" where
  "throwing_cb a = (case snd a of None \<Rightarrow> None | Some data \<Rightarrow> Some ''the caller failed'')"

definition ok :: "response option" where
  "ok = Some \<lparr>statusCode = 200\<rparr>"

definition not_found :: "response option" where
  "not_found = Some \<lparr>statusCode = 404\<rparr>"

definition no_error :: "string option" where
  "no_error = None"

text \<open>A page with one ozone column and one site, which the table of coordinates knows.\<close>

definition rozelle_page :: document where
  "rozelle_page =
     \<lparr>date_html = Some ''Hourly readings<br>13 December 2015<br>10 - 11 pm'',
      rows =
        [\<lparr>children =
            [(plain ''Region'')\<lparr>colspan := Some 2\<rparr>,
             \<lparr>colspan = None, anchors = 1, pollutant = Some ''O3'', hours = None, text = ''OZONE O3''\<rparr>],
          site_length = 0, site_text = [], region_length = 0, region_text = []\<rparr>,
         \<lparr>children =
            [(plain [])\<lparr>colspan := Some 2\<rparr>,
             \<lparr>colspan = None, anchors = 0, pollutant = None, hours = Some ''1'', text = ''1-hour average''\<rparr>],
          site_length = 0, site_text = [], region_length = 0, region_text = []\<rparr>,
         \<lparr>children = [plain ''Sydney East'', plain ''Rozelle'', plain ''2.1''],
          site_length = 1, site_text = ''Rozelle'', region_length = 1, region_text = ''Sydney East''\<rparr>]\<rparr>"

definition rozelle_ozone :: measurement where
  "rozelle_ozone =
     \<lparr>location = Some (JString ''Rozelle''), city = ''Sydney East'', country = None,
      date = \<lparr>utc = Some 0, local = ''13 December 201511pm''\<rparr>,
      sourceName = None, sourceType = None, mobile = None,
      coordinates = Some (Entry \<lparr>latitude = Number (Some (JNumber (-33.8658333))),
                                 longitude = Number (Some (JNumber 151.1625))\<rparr>),
      attribution =
        [\<lparr>attrib.name = ''State of New South Wales (Department of Planning, Industry and Environment)'',
          attrib.url = ''https://www.dpie.nsw.gov.au/''\<rparr>],
      averagingPeriod = \<lparr>period.value = 1, period.unit = ''hours''\<rparr>,
      parameter = ''o3'', value = Number (Some (JString ''2.1'')), unit = Some (Entry ''pphm'')\<rparr>"

section \<open>Properties of the loop that keeps the shortest averaging period\<close>

lemma findIndex_None: "findIndex P xs = None \<longleftrightarrow> (\<forall>x\<in>set xs. \<not> P x)"
  by (induction xs) auto

lemma findIndex_Some:
  "findIndex P xs = Some i \<Longrightarrow> i < length xs \<and> P (xs ! i) \<and> (\<forall>j<i. \<not> P (xs ! j))"
proof (induction xs arbitrary: i)
  case Nil
  then show ?case by simp
next
  case (Cons x xs)
  show ?case
  proof (cases "P x")
    case True
    with Cons.prems show ?thesis by simp
  next
    case False
    with Cons.prems obtain k where k: "findIndex P xs = Some k" "i = Suc k" by auto
    from Cons.IH [OF k(1)] False k(2) show ?thesis
      by (auto simp: nth_Cons split: nat.splits)
  qed
qed

lemma matches_pair_of: "matches m x \<longleftrightarrow> pair_of x = pair_of m"
  by (auto simp: matches_def pair_of_def)

lemma splice1_snoc: "i < length xs \<Longrightarrow> splice1 i (xs @ [y]) = splice1 i xs @ [y]"
  by (simp add: splice1_def)

lemma splice1_distinct:
  "distinct (map f xs) \<Longrightarrow> i < length xs \<Longrightarrow> splice1 i xs = filter (\<lambda>x. f x \<noteq> f (xs ! i)) xs"
proof (induction xs arbitrary: i)
  case Nil
  then show ?case by simp
next
  case (Cons x xs)
  show ?case
  proof (cases i)
    case 0
    from Cons.prems(1) have "\<forall>y\<in>set xs. f y \<noteq> f x" by (metis distinct.simps(2) image_eqI list.simps(9) set_map)
    then have "filter (\<lambda>y. f y \<noteq> f x) xs = xs" by (simp add: filter_id_conv)
    with 0 show ?thesis by (simp add: splice1_def)
  next
    case (Suc k)
    with Cons.prems have k: "k < length xs" and d: "distinct (map f xs)" by auto
    from Cons.prems(1) k have "f x \<noteq> f (xs ! k)" by (auto simp: image_iff)
    with Cons.IH [OF d k] Suc show ?thesis by (simp add: splice1_def)
  qed
qed

lemma keepShortest_new:
  "pair_of m \<notin> pair_of ` set fm \<Longrightarrow> keepShortest fm m = fm @ [m]"
proof -
  assume "pair_of m \<notin> pair_of ` set fm"
  then have "findIndex (matches m) fm = None"
    by (auto simp: findIndex_None matches_pair_of image_iff)
  then show ?thesis by (simp add: keepShortest_def)
qed

lemma keepShortest_found:
  assumes d: "distinct (map pair_of fm)" and e: "e \<in> set fm" "pair_of e = pair_of m"
  shows "keepShortest fm m =
    (if hours_of m < hours_of e then filter (\<lambda>x. pair_of x \<noteq> pair_of m) fm @ [m] else fm)"
proof -
  from e have "findIndex (matches m) fm \<noteq> None"
    by (auto simp: findIndex_None matches_pair_of)
  then obtain i where i: "findIndex (matches m) fm = Some i" by auto
  from findIndex_Some [OF i] have il: "i < length fm" and im: "pair_of (fm ! i) = pair_of m"
    by (auto simp: matches_pair_of)
  from d have "inj_on pair_of (set fm)" by (simp add: distinct_map)
  with e im il have fe: "fm ! i = e" by (metis inj_onD nth_mem)
  from splice1_distinct [OF d il] im
  have "splice1 i fm = filter (\<lambda>x. pair_of x \<noteq> pair_of m) fm" by simp
  with i il fe show ?thesis
    by (simp add: keepShortest_def splice1_snoc hours_of_def)
qed

lemma finalMeasurements_snoc:
  "finalMeasurements (ms @ [m]) = keepShortest (finalMeasurements ms) m"
  by (simp add: finalMeasurements_def)

lemma finalMeasurements_inv:
  "distinct (map pair_of (finalMeasurements ms)) \<and>
   pair_of ` set (finalMeasurements ms) = pair_of ` set ms \<and>
   (\<forall>x\<in>set (finalMeasurements ms). x \<in> set ms \<and>
      (\<forall>y\<in>set ms. pair_of y = pair_of x \<longrightarrow> hours_of x \<le> hours_of y))"
proof (induction ms rule: rev_induct)
  case Nil
  then show ?case by (simp add: finalMeasurements_def)
next
  case (snoc m ms)
  let ?fm = "finalMeasurements ms"
  from snoc have d: "distinct (map pair_of ?fm)"
    and k: "pair_of ` set ?fm = pair_of ` set ms"
    and s: "\<forall>x\<in>set ?fm. x \<in> set ms \<and>
      (\<forall>y\<in>set ms. pair_of y = pair_of x \<longrightarrow> hours_of x \<le> hours_of y)"
    by auto
  show ?case
  proof (cases "pair_of m \<in> pair_of ` set ?fm")
    case False
    then have eq: "finalMeasurements (ms @ [m]) = ?fm @ [m]"
      by (simp add: finalMeasurements_snoc keepShortest_new)
    from False k have new: "\<forall>y\<in>set ms. pair_of y \<noteq> pair_of m" by (metis image_eqI)
    from d False have "distinct (map pair_of (?fm @ [m]))" by auto
    moreover from k have "pair_of ` set (?fm @ [m]) = pair_of ` set (ms @ [m])" by auto
    moreover from s new have "\<forall>x\<in>set (?fm @ [m]). x \<in> set (ms @ [m]) \<and>
      (\<forall>y\<in>set (ms @ [m]). pair_of y = pair_of x \<longrightarrow> hours_of x \<le> hours_of y)"
      by auto
    ultimately show ?thesis unfolding eq by blast
  next
    case True
    then obtain e where e: "e \<in> set ?fm" "pair_of e = pair_of m" by auto
    note step = keepShortest_found [OF d e]
    show ?thesis
    proof (cases "hours_of m < hours_of e")
      case False
      with step have eq: "finalMeasurements (ms @ [m]) = ?fm"
        by (simp add: finalMeasurements_snoc)
      from d e have uniq: "\<forall>x\<in>set ?fm. pair_of x = pair_of m \<longrightarrow> x = e"
        by (metis distinct_map inj_onD)
      from True k have "pair_of m \<in> pair_of ` set ms" by simp
      with k have "pair_of ` set ?fm = pair_of ` set (ms @ [m])" by auto
      moreover from s uniq False have "\<forall>x\<in>set ?fm. x \<in> set (ms @ [m]) \<and>
        (\<forall>y\<in>set (ms @ [m]). pair_of y = pair_of x \<longrightarrow> hours_of x \<le> hours_of y)"
        by auto
      ultimately show ?thesis unfolding eq using d by blast
    next
      case True
      let ?rest = "filter (\<lambda>x. pair_of x \<noteq> pair_of m) ?fm"
      from True step have eq: "finalMeasurements (ms @ [m]) = ?rest @ [m]"
        by (simp add: finalMeasurements_snoc)
      from d have "distinct (map pair_of ?rest)" by (simp add: distinct_map_filter)
      then have d': "distinct (map pair_of (?rest @ [m]))" by auto
      have "pair_of ` set (?rest @ [m]) = insert (pair_of m) (pair_of ` set ?fm)"
        by (auto simp: image_iff)
      with k have k': "pair_of ` set (?rest @ [m]) = pair_of ` set (ms @ [m])" by auto
      from s e True have low: "\<forall>y\<in>set ms. pair_of y = pair_of m \<longrightarrow> hours_of m \<le> hours_of y"
        by force
      with s have s': "\<forall>x\<in>set (?rest @ [m]). x \<in> set (ms @ [m]) \<and>
        (\<forall>y\<in>set (ms @ [m]). pair_of y = pair_of x \<longrightarrow> hours_of x \<le> hours_of y)"
        by auto
      from d' k' s' show ?thesis unfolding eq by blast
    qed
  qed
qed








section \<open>Sequencing\<close>

lemma andThen_Inr: "andThen r f = Inr y \<longleftrightarrow> (\<exists>x. r = Inr x \<and> f x = Inr y)"
  by (cases r) (simp_all add: andThen_def)

lemma forEach_Inr:
  "forEach f xs = Inr ms \<longleftrightarrow> (\<exists>mss. list_all2 (\<lambda>x ys. f x = Inr ys) xs mss \<and> ms = concat mss)"
proof (induction xs arbitrary: ms)
  case Nil
  then show ?case by auto
next
  case (Cons x xs)
  show ?case
  proof
    assume "forEach f (x # xs) = Inr ms"
    then obtain ys zs where ys: "f x = Inr ys" and zs: "forEach f xs = Inr zs"
      and ms: "ms = ys @ zs"
      by (auto simp: andThen_Inr)
    from zs Cons.IH obtain mss where "list_all2 (\<lambda>x ys. f x = Inr ys) xs mss" "zs = concat mss"
      by blast
    with ys ms have "list_all2 (\<lambda>x ys. f x = Inr ys) (x # xs) (ys # mss) \<and> ms = concat (ys # mss)"
      by simp
    then show "\<exists>mss. list_all2 (\<lambda>x ys. f x = Inr ys) (x # xs) mss \<and> ms = concat mss" ..
  next
    assume "\<exists>mss. list_all2 (\<lambda>x ys. f x = Inr ys) (x # xs) mss \<and> ms = concat mss"
    then obtain ys mss where ys: "f x = Inr ys" and mss: "list_all2 (\<lambda>x ys. f x = Inr ys) xs mss"
      and ms: "ms = ys @ concat mss"
      by (auto simp: list_all2_Cons1)
    from mss Cons.IH have "forEach f xs = Inr (concat mss)" by blast
    with ys ms show "forEach f (x # xs) = Inr ms" by (simp add: andThen_def)
  qed
qed

lemma forEach_Inl:
  assumes "\<exists>x\<in>set xs. f x = Inl e" and "\<forall>x\<in>set xs. \<forall>e'. f x = Inl e' \<longrightarrow> e' = e"
  shows "forEach f xs = Inl e"
  using assms
proof (induction xs)
  case Nil
  then show ?case by simp
next
  case (Cons x xs)
  show ?case
  proof (cases "f x")
    case (Inl e')
    with Cons.prems(2) have "e' = e" by simp
    with Inl show ?thesis by (simp add: andThen_def)
  next
    case (Inr ys)
    with Cons.prems have "\<exists>x\<in>set xs. f x = Inl e" by auto
    with Cons.IH Cons.prems(2) have rest: "forEach f xs = Inl e" by simp
    with Inr show ?thesis by (simp add: andThen_def)
  qed
qed

section \<open>Properties of fetchData\<close>

lemma onResponse_failure:
  "err \<noteq> None \<or> (\<exists>r. res = Some r \<and> statusCode r \<noteq> 200) \<Longrightarrow>
   onResponse f cb err res body = call cb (Some ''Failure to load data url.'', None)"
  by (auto simp: onResponse_def)

text \<open>
  C4. When the request gave an error, or its response a status code other than 200, the
  callback is called once, with the message "Failure to load data url." and no data,
  in both adapters and whatever the body is.
\<close>

theorem fetchData_transport_failure:
  "err \<noteq> None \<or> (\<exists>r. res = Some r \<and> statusCode r \<noteq> 200) \<Longrightarrow>
   calls (fetchData_nsw M load acceptable conv src cb err res body)
     = [(Some ''Failure to load data url.'', None)] \<and>
   calls (fetchData_act M' parse src' cb' err res body)
     = [(Some ''Failure to load data url.'', None)]"
  by (simp add: fetchData_nsw_def fetchData_act_def onResponse_failure call_def)

theorem fetchData_transport_failure_witness:
  "calls (fetchData_nsw stub_moment stub_load [''o3''] id nsw_source quiet_cb no_error not_found ''<html></html>'')
     = [(Some ''Failure to load data url.'', None)] \<and>
   calls (fetchData_act stub_moment stub_parse act_source throwing_cb no_error not_found ''[]'')
     = [(Some ''Failure to load data url.'', None)] \<and>
   calls (fetchData_act stub_moment stub_parse act_source quiet_cb (Some ''ETIMEDOUT'') None [])
     = [(Some ''Failure to load data url.'', None)]"
proof -
  have a: "no_error \<noteq> None \<or> (\<exists>r. not_found = Some r \<and> statusCode r \<noteq> 200)"
    by (simp add: not_found_def)
  have b: "Some ''ETIMEDOUT'' \<noteq> None \<or> (\<exists>r. None = Some r \<and> statusCode r \<noteq> 200)"
    by simp
  note n = fetchData_transport_failure [OF a]
  note t = fetchData_transport_failure [OF b]
  show ?thesis
    by (intro conjI) (rule n [THEN conjunct1], rule n [THEN conjunct2], rule t [THEN conjunct2])
qed

lemma onResponse_raises:
  "err = None \<Longrightarrow> res = Some r \<Longrightarrow> statusCode r = 200 \<Longrightarrow> f body = Inl e \<Longrightarrow>
   onResponse f cb err res body = call cb (Some ''Unknown adapter error.'', None)"
  by (simp add: onResponse_def)

lemma onResponse_data:
  "err = None \<Longrightarrow> res = Some r \<Longrightarrow> statusCode r = 200 \<Longrightarrow> f body = Inr (Some d) \<Longrightarrow>
   onResponse f cb err res body = call_in_try cb (None, Some d)"
  by (simp add: onResponse_def)


lemma onResponse_once:
  assumes "err \<noteq> None \<or> res \<noteq> None" and "\<forall>d. cb (None, Some d) = None"
    and "\<forall>b. f b \<noteq> Inr None"
  shows "exactly_once (calls (onResponse f cb err res body))"
proof (cases "err \<noteq> None \<or> (\<exists>r. res = Some r \<and> statusCode r \<noteq> 200)")
  case True
  then show ?thesis
    by (simp add: onResponse_failure call_def exactly_once_def)
next
  case False
  with assms(1) obtain r where r: "err = None" "res = Some r" "statusCode r = 200" by auto
  show ?thesis
  proof (cases "f body")
    case (Inl e)
    with r show ?thesis
      by (simp add: onResponse_raises call_def exactly_once_def)
  next
    case (Inr v)
    with assms(3) obtain d where "f body = Inr (Some d)"
      by (cases v) (auto dest: spec [of _ body])
    with r assms(2) show ?thesis
      by (simp add: onResponse_data call_in_try_def exactly_once_def)
  qed
qed

text \<open>
  The call \<open>cb(null, data)\<close> stands inside the \<open>try\<close> block. A callback that throws
  when it is handed the data is called a second time, by the \<open>catch\<close> block, with the
  message "Unknown adapter error.": here on the body \<open>[]\<close> of a response with status
  200.
\<close>

theorem fetchData_once_counterexample:
  "calls (fetchData_act stub_moment stub_parse act_source throwing_cb no_error ok ''[]'')
     = [(None, Some \<lparr>result.name = ''unused'', measurements = []\<rparr>),
        (Some ''Unknown adapter error.'', None)] \<and>
   \<not> exactly_once (calls (fetchData_act stub_moment stub_parse act_source throwing_cb no_error ok ''[]''))"
  by (simp add: fetchData_act_def onResponse_def stub_parse_def formatData_act_def andThen_def
      call_in_try_def throwing_cb_def no_error_def ok_def exactly_once_def)

text \<open>
  C2, amended. When the request has completed (with an error or a response) and the
  callback returns whenever it is handed data, both adapters call it exactly once:
  with an error and no data, or with \<open>null\<close> and the data.
\<close>

theorem fetchData_once:
  assumes "err \<noteq> None \<or> res \<noteq> None" and "\<forall>d. cb (None, Some d) = None"
  shows "exactly_once (calls (fetchData_nsw M load acceptable conv src cb err res body)) \<and>
         exactly_once (calls (fetchData_act M' parse src' cb err res body))"
proof -
  have n: "\<forall>b. map_sum id Some (formatData_nsw M acceptable conv (load b)) \<noteq> Inr None"
    by (auto simp: map_sum_def split: sum.splits)
  have a: "\<forall>b. (case parse b of None \<Rightarrow> Inl SyntaxError
      | Some data \<Rightarrow> map_sum id Some (formatData_act M' data src')) \<noteq> Inr None"
    by (auto simp: map_sum_def split: sum.splits option.splits)
  from onResponse_once [OF assms n] onResponse_once [OF assms a] show ?thesis
    unfolding fetchData_nsw_def fetchData_act_def by simp
qed

theorem fetchData_once_witness:
  "exactly_once (calls (fetchData_nsw stub_moment stub_load [''o3'', ''no2''] id nsw_source quiet_cb no_error ok ''<html></html>'')) \<and>
   exactly_once (calls (fetchData_act stub_moment stub_parse act_source quiet_cb no_error ok ''[]'')) \<and>
   calls (fetchData_act stub_moment stub_parse act_source quiet_cb no_error ok ''[]'')
     = [(None, Some \<lparr>result.name = ''unused'', measurements = []\<rparr>)]"
proof -
  have a: "no_error \<noteq> None \<or> ok \<noteq> None" by (simp add: ok_def)
  have b: "\<forall>d. quiet_cb (None, Some d) = None" by (simp add: quiet_cb_def)
  note t = fetchData_once [OF a b]
  have "calls (fetchData_act stub_moment stub_parse act_source quiet_cb no_error ok ''[]'')
     = [(None, Some \<lparr>result.name = ''unused'', measurements = []\<rparr>)]"
    by (simp add: fetchData_act_def onResponse_def stub_parse_def formatData_act_def andThen_def
      call_in_try_def quiet_cb_def no_error_def ok_def)
  then show ?thesis
    by (intro conjI) (rule t [THEN conjunct1], rule t [THEN conjunct2], assumption)
qed




section \<open>Properties of the JSON adapter\<close>

lemma eachType_object:
  "eachType base (Some (JObject kvs)) ts =
     Inr (map (\<lambda>(t, p). base\<lparr>parameter := p, value := Number (map_of kvs t),
                               unit := lookup units_act p\<rparr>)
            (filter (\<lambda>(t, p). map_of kvs t \<noteq> None) ts))"
  by (induction ts) (auto simp: andThen_def)

lemma get_gps_field:
  "g \<noteq> JNull \<Longrightarrow> \<exists>v. get (Some g) k = Inr v"
  by (cases g) auto

lemma baseMeasurement_valid:
  assumes "valid_row row"
  shows "\<exists>base. baseMeasurement M src row = Inr base"
proof -
  from assms obtain kvs g where row: "row = Some (JObject kvs)"
    and g: "map_of kvs ''gps'' = Some g" "g \<noteq> JNull"
    by (auto simp: valid_row_def split: option.splits json.splits)
  from get_gps_field [OF g(2)] obtain lat where lat: "get (Some g) ''latitude'' = Inr lat" by blast
  from get_gps_field [OF g(2)] obtain lon where lon: "get (Some g) ''longitude'' = Inr lon" by blast
  from row g lat lon show ?thesis
    by (simp add: baseMeasurement_def andThen_def)
qed

lemma eachRow_act_invalid:
  assumes "\<not> valid_row row"
  shows "eachRow_act M src row = Inl TypeError"
proof (cases row)
  case None
  then show ?thesis by (simp add: eachRow_act_def baseMeasurement_def andThen_def)
next
  case (Some v)
  show ?thesis
  proof (cases v)
    case (JObject kvs)
    with Some assms have "map_of kvs ''gps'' = None \<or> map_of kvs ''gps'' = Some JNull"
      by (auto simp: valid_row_def split: option.splits json.splits)
    with Some JObject show ?thesis
      by (auto simp: eachRow_act_def baseMeasurement_def andThen_def)
  qed (simp_all add: Some eachRow_act_def baseMeasurement_def andThen_def)
qed

lemma has_prop_object:
  "(has_prop t (Some (JObject kvs)) = Inr True) = (map_of kvs t \<noteq> None)"
  by simp

lemma units_of_types:
  "\<forall>(t, p)\<in>set types. \<exists>u. lookup units_act p = Some (Entry u)"
  by (simp add: types_def units_act_def lookup_def)

lemma eachRow_act_valid:
  assumes "valid_row row"
  shows "\<exists>ms. eachRow_act M src row = Inr ms \<and>
     map parameter ms = map snd (filter (\<lambda>(type, p). has_prop type row = Inr True) types) \<and>
     distinct (map parameter ms) \<and>
     (\<forall>m\<in>set ms. unit m = lookup units_act (parameter m) \<and> (\<exists>u. unit m = Some (Entry u)))"
proof -
  from assms obtain kvs where row: "row = Some (JObject kvs)"
    by (auto simp: valid_row_def split: option.splits json.splits)
  from baseMeasurement_valid [OF assms] obtain base where
    base: "baseMeasurement M src row = Inr base" by blast
  let ?present = "filter (\<lambda>(t, p). map_of kvs t \<noteq> None) types"
  let ?ms = "map (\<lambda>(t, p). base\<lparr>parameter := p, value := Number (map_of kvs t),
                               unit := lookup units_act p\<rparr>) ?present"
  have run: "eachRow_act M src row = Inr ?ms"
    using base unfolding row by (simp add: eachRow_act_def andThen_def eachType_object)
  have par: "map parameter ?ms = map snd ?present"
    by (simp add: case_prod_beta comp_def)
  have "distinct (map snd types)" by (simp add: types_def)
  then have dis: "distinct (map snd ?present)" by (rule distinct_map_filter)
  have sub: "set ?present \<subseteq> set types" by auto
  have un: "\<forall>m\<in>set ?ms. unit m = lookup units_act (parameter m) \<and> (\<exists>u. unit m = Some (Entry u))"
    using units_of_types sub by auto
  from run par dis un show ?thesis
    unfolding row has_prop_object by (metis (lifting))
qed

lemma formatData_act_rows:
  "formatData_act M data src = Inr out \<longleftrightarrow>
     (\<exists>rs mss. data = JArray rs \<and> list_all2 (\<lambda>r ms. eachRow_act M src (Some r) = Inr ms) rs mss \<and>
        out = \<lparr>result.name = ''unused'', measurements = concat mss\<rparr>)"
proof (cases data)
  case (JArray rs)
  show ?thesis
    unfolding JArray by (auto simp: formatData_act_def andThen_Inr forEach_Inr)
qed (simp_all add: formatData_act_def)

lemma list_all2_valid:
  assumes "list_all2 (\<lambda>r ms. eachRow_act M src (Some r) = Inr ms) rs mss"
  shows "map parameter (concat mss) =
       concat (map (\<lambda>r. map snd (filter (\<lambda>(type, p). has_prop type (Some r) = Inr True) types)) rs) \<and>
     (\<forall>m\<in>set (concat mss). unit m = lookup units_act (parameter m) \<and> (\<exists>u. unit m = Some (Entry u)))"
  using assms
proof (induction rule: list_all2_induct)
  case Nil
  then show ?case by simp
next
  case (Cons r rs ms mss)
  have "valid_row (Some r)"
    using Cons.hyps(1) eachRow_act_invalid [of "Some r" M src] by (cases "valid_row (Some r)") auto
  from eachRow_act_valid [OF this, of M src] obtain ms' where
    "eachRow_act M src (Some r) = Inr ms'"
    and a': "map parameter ms' = map snd (filter (\<lambda>(type, p). has_prop type (Some r) = Inr True) types)"
    and b': "\<forall>m\<in>set ms'. unit m = lookup units_act (parameter m) \<and> (\<exists>u. unit m = Some (Entry u))"
    by blast
  with Cons.hyps(1) have same: "ms' = ms" by simp
  note a = a' [unfolded same] and b = b' [unfolded same]
  from Cons.IH have c: "map parameter (concat mss) =
       concat (map (\<lambda>r. map snd (filter (\<lambda>(type, p). has_prop type (Some r) = Inr True) types)) rs)"
    and d: "\<forall>m\<in>set (concat mss). unit m = lookup units_act (parameter m) \<and> (\<exists>u. unit m = Some (Entry u))"
    by blast+
  show ?case
  proof (intro conjI ballI)
    show "map parameter (concat (ms # mss)) =
       concat (map (\<lambda>r. map snd (filter (\<lambda>(type, p). has_prop type (Some r) = Inr True) types)) (r # rs))"
      by (simp add: a c)
  next
    fix m assume "m \<in> set (concat (ms # mss))"
    then consider "m \<in> set ms" | "m \<in> set (concat mss)" by auto
    then show "unit m = lookup units_act (parameter m)"
      using b d by cases blast+
  next
    fix m assume "m \<in> set (concat (ms # mss))"
    then consider "m \<in> set ms" | "m \<in> set (concat mss)" by auto
    then show "\<exists>u. unit m = Some (Entry u)"
      using b d by cases blast+
  qed
qed

text \<open>
  C3. On a valid row the JSON adapter pushes one measurement for each key of \<open>types\<close>
  that the row has, in the order of the table and no other: their parameters are the
  entries of those keys, each once. The unit of each is the entry of \<open>units\<close> for its
  parameter, which exists: nothing of the row enters it. When every row of the body
  is valid, \<open>formatData\<close> returns the measurements of its rows, row after row, and
  nothing else; one row that is not valid makes it raise.
\<close>

theorem formatData_act_one_per_key:
  "(valid_row row \<longrightarrow>
      (\<exists>ms. eachRow_act M src row = Inr ms \<and>
         map parameter ms = map snd (filter (\<lambda>(type, p). has_prop type row = Inr True) types) \<and>
         distinct (map parameter ms) \<and>
         (\<forall>m\<in>set ms. unit m = lookup units_act (parameter m) \<and> (\<exists>u. unit m = Some (Entry u))))) \<and>
   ((\<forall>r\<in>set rs. valid_row (Some r)) \<longrightarrow>
      (\<exists>out mss. formatData_act M (JArray rs) src = Inr out \<and>
         result.name out = ''unused'' \<and>
         list_all2 (\<lambda>r ms. eachRow_act M src (Some r) = Inr ms) rs mss \<and>
         measurements out = concat mss \<and>
         map parameter (measurements out) =
           concat (map (\<lambda>r. map snd (filter (\<lambda>(type, p). has_prop type (Some r) = Inr True) types)) rs) \<and>
         (\<forall>m\<in>set (measurements out).
            unit m = lookup units_act (parameter m) \<and> (\<exists>u. unit m = Some (Entry u))))) \<and>
   ((\<exists>r\<in>set rs. \<not> valid_row (Some r)) \<longrightarrow> formatData_act M (JArray rs) src = Inl TypeError)"
proof (intro conjI impI)
  assume "valid_row row"
  then show "\<exists>ms. eachRow_act M src row = Inr ms \<and>
         map parameter ms = map snd (filter (\<lambda>(type, p). has_prop type row = Inr True) types) \<and>
         distinct (map parameter ms) \<and>
         (\<forall>m\<in>set ms. unit m = lookup units_act (parameter m) \<and> (\<exists>u. unit m = Some (Entry u)))"
    by (rule eachRow_act_valid)
next
  assume valid: "\<forall>r\<in>set rs. valid_row (Some r)"
  have "\<exists>mss. list_all2 (\<lambda>r ms. eachRow_act M src (Some r) = Inr ms) rs mss"
    using valid
  proof (induction rs)
    case Nil
    then show ?case by simp
  next
    case (Cons r rs)
    then obtain mss where mss: "list_all2 (\<lambda>r ms. eachRow_act M src (Some r) = Inr ms) rs mss"
      by auto
    from Cons.prems have "valid_row (Some r)" by simp
    from eachRow_act_valid [OF this, of M src] obtain ms where
      "eachRow_act M src (Some r) = Inr ms" by blast
    with mss have "list_all2 (\<lambda>r ms. eachRow_act M src (Some r) = Inr ms) (r # rs) (ms # mss)"
      by simp
    then show ?case ..
  qed
  then obtain mss where mss: "list_all2 (\<lambda>r ms. eachRow_act M src (Some r) = Inr ms) rs mss" ..
  let ?out = "\<lparr>result.name = ''unused'', measurements = concat mss\<rparr>"
  from mss have run: "formatData_act M (JArray rs) src = Inr ?out"
    unfolding formatData_act_rows by blast
  have n: "result.name ?out = ''unused''" by simp
  have m: "measurements ?out = concat mss" by simp
  from list_all2_valid [OF mss]
  have p: "map parameter (measurements ?out) =
           concat (map (\<lambda>r. map snd (filter (\<lambda>(type, p). has_prop type (Some r) = Inr True) types)) rs)"
    and q: "\<forall>m\<in>set (measurements ?out).
            unit m = lookup units_act (parameter m) \<and> (\<exists>u. unit m = Some (Entry u))"
    unfolding m by blast+
  show "\<exists>out mss. formatData_act M (JArray rs) src = Inr out \<and>
         result.name out = ''unused'' \<and>
         list_all2 (\<lambda>r ms. eachRow_act M src (Some r) = Inr ms) rs mss \<and>
         measurements out = concat mss \<and>
         map parameter (measurements out) =
           concat (map (\<lambda>r. map snd (filter (\<lambda>(type, p). has_prop type (Some r) = Inr True) types)) rs) \<and>
         (\<forall>m\<in>set (measurements out).
            unit m = lookup units_act (parameter m) \<and> (\<exists>u. unit m = Some (Entry u)))"
    by (intro exI [of _ ?out] exI [of _ mss] conjI) (rule run, rule n, rule mss, rule m, rule p, rule q)
next
  assume "\<exists>r\<in>set rs. \<not> valid_row (Some r)"
  then have "\<exists>r\<in>set rs. eachRow_act M src (Some r) = Inl TypeError"
    using eachRow_act_invalid by blast
  moreover have "\<forall>r\<in>set rs. \<forall>e'. eachRow_act M src (Some r) = Inl e' \<longrightarrow> e' = TypeError"
  proof (intro ballI allI impI)
    fix r e' assume e: "eachRow_act M src (Some r) = Inl e'"
    show "e' = TypeError"
    proof (cases "valid_row (Some r)")
      case True
      from eachRow_act_valid [OF True, of M src] e show ?thesis by auto
    next
      case False
      from eachRow_act_invalid [OF False, of M src] e show ?thesis by simp
    qed
  qed
  ultimately have "forEach (\<lambda>r. eachRow_act M src (Some r)) rs = Inl TypeError"
    by (rule forEach_Inl)
  then show "formatData_act M (JArray rs) src = Inl TypeError"
    by (simp add: formatData_act_def andThen_def)
qed

theorem formatData_act_one_per_key_witness:
  "valid_row (Some monash) \<and> valid_row (Some florey) \<and>
   (\<exists>out. formatData_act stub_moment (JArray [monash, florey]) act_source = Inr out \<and>
      map parameter (measurements out) = [''no2'', ''pm25''] \<and>
      map unit (measurements out) = [Some (Entry ''ppm''), Some (Entry micrograms)]) \<and>
   eachRow_act stub_moment act_source (Some florey) = Inr [] \<and>
   formatData_act stub_moment (JArray [monash, JNull]) act_source = Inl TypeError"
proof -
  have v: "valid_row (Some monash)" by (simp add: valid_row_def monash_def)
  have w: "valid_row (Some florey)" by (simp add: valid_row_def florey_def)
  have all: "\<forall>r\<in>set [monash, florey]. valid_row (Some r)" using v w by simp
  have bad: "\<exists>r\<in>set [monash, JNull]. \<not> valid_row (Some r)" by (simp add: valid_row_def)
  note t = formatData_act_one_per_key [where M = stub_moment and src = act_source]
  from t [where row = "Some florey" and rs = "[]", THEN conjunct1, THEN mp, OF w] obtain ns where
    "eachRow_act stub_moment act_source (Some florey) = Inr ns"
    and "map parameter ns =
      map snd (filter (\<lambda>(type, p). has_prop type (Some florey) = Inr True) types)"
    by blast
  then have none: "eachRow_act stub_moment act_source (Some florey) = Inr []"
    by (simp add: types_def florey_def)
  from t [where row = None and rs = "[monash, florey]", THEN conjunct2, THEN conjunct1, THEN mp, OF all]
  obtain out where run: "formatData_act stub_moment (JArray [monash, florey]) act_source = Inr out"
    and par: "map parameter (measurements out) =
      concat (map (\<lambda>r. map snd (filter (\<lambda>(type, p). has_prop type (Some r) = Inr True) types))
        [monash, florey])"
    and un: "\<forall>m\<in>set (measurements out).
      unit m = lookup units_act (parameter m) \<and> (\<exists>u. unit m = Some (Entry u))"
    by blast
  from par have p: "map parameter (measurements out) = [''no2'', ''pm25'']"
    by (simp add: types_def monash_def florey_def)
  from un have "map unit (measurements out) = map (lookup units_act) (map parameter (measurements out))"
    by simp
  with p have u: "map unit (measurements out) = [Some (Entry ''ppm''), Some (Entry micrograms)]"
    by (simp add: units_act_def lookup_def)
  from run p u have ex: "\<exists>out. formatData_act stub_moment (JArray [monash, florey]) act_source = Inr out \<and>
      map parameter (measurements out) = [''no2'', ''pm25''] \<and>
      map unit (measurements out) = [Some (Entry ''ppm''), Some (Entry micrograms)]"
    by (intro exI [of _ out] conjI)
  from t [where row = None and rs = "[monash, JNull]", THEN conjunct2, THEN conjunct2, THEN mp, OF bad]
  have raise: "formatData_act stub_moment (JArray [monash, JNull]) act_source = Inl TypeError" .
  show ?thesis
    by (intro conjI) (rule v, rule w, rule ex, rule none, rule raise)
qed

text \<open>
  C9. The one request of the JSON adapter goes to \<open>source.url\<close> and carries the single
  query parameter \<open>$query\<close>: rows whose \<open>datetime\<close> is greater than the text of the
  current time, moved to Australia/Sydney and one day back, ordered by \<open>datetime\<close>
  descending, at most 1000 of them.
\<close>

theorem request_act_query:
  "uri (request_act M now src) = source.url src \<and>
   map fst (qs (request_act M now src)) = [''$query''] \<and>
   map snd (qs (request_act M now src)) =
     [''select *, :id where (`datetime` > '' @ [CHR 0x27]
        @ format_as M (subtract M (in_tz M now ''Australia/Sydney'') 1 ''days'') ''YYYY-MM-DDTHH:mm:ss''
        @ [CHR 0x27] @ '') order by `datetime` desc limit 1000'']"
  by (simp add: request_act_def timeAgo_def)


section \<open>Properties of the HTML adapter\<close>

lemma splitAt_piece:
  "c \<notin> set s \<Longrightarrow> splitAt (c # rest) cur (s @ (c # rest) @ t) = (cur @ s) # splitAt (c # rest) [] t"
proof (induction s arbitrary: cur)
  case Nil
  then show ?case by simp
next
  case (Cons x s)
  then have "x \<noteq> c" and "c \<notin> set s" by auto
  with Cons.IH [of "cur @ [x]"] show ?case by simp
qed

lemma splitAt_last:
  "c \<notin> set s \<Longrightarrow> splitAt (c # rest) cur s = [cur @ s]"
proof (induction s arbitrary: cur)
  case Nil
  then show ?case by simp
next
  case (Cons x s)
  then have "x \<noteq> c" and "c \<notin> set s" by auto
  with Cons.IH [of "cur @ [x]"] show ?case by simp
qed

lemma split_header:
  assumes "CHR ''<'' \<notin> set title" "CHR ''<'' \<notin> set day" "CHR ''<'' \<notin> set hrs"
  shows "split ''<br>'' (title @ ''<br>'' @ day @ ''<br>'' @ hrs) = [title, day, hrs]"
proof -
  have "splitAt ''<br>'' [] (title @ ''<br>'' @ (day @ ''<br>'' @ hrs))
      = title # splitAt ''<br>'' [] (day @ ''<br>'' @ hrs)"
    using splitAt_piece [OF assms(1), of "''br>''" "[]" "day @ ''<br>'' @ hrs"] by simp
  also have "splitAt ''<br>'' [] (day @ ''<br>'' @ hrs) = day # splitAt ''<br>'' [] hrs"
    using splitAt_piece [OF assms(2), of "''br>''" "[]" hrs] by simp
  also have "splitAt ''<br>'' [] hrs = [hrs]"
    using splitAt_last [OF assms(3), of "''br>''" "[]"] by simp
  finally show ?thesis by (simp add: split_def)
qed

lemma split_range:
  assumes "CHR '' '' \<notin> set h1" "CHR '' '' \<notin> set h2" "CHR '' '' \<notin> set ampm"
  shows "split '' '' (h1 @ '' - '' @ h2 @ '' '' @ ampm) = [h1, ''-'', h2, ampm]"
proof -
  have "splitAt '' '' [] (h1 @ '' '' @ (''- '' @ h2 @ '' '' @ ampm))
      = h1 # splitAt '' '' [] (''- '' @ h2 @ '' '' @ ampm)"
    using splitAt_piece [OF assms(1), of "[]" "[]" "''- '' @ h2 @ '' '' @ ampm"] by simp
  also have "splitAt '' '' [] (''- '' @ h2 @ '' '' @ ampm) = ''-'' # splitAt '' '' [] (h2 @ '' '' @ ampm)"
    by simp
  also have "splitAt '' '' [] (h2 @ '' '' @ ampm) = h2 # splitAt '' '' [] ampm"
    using splitAt_piece [OF assms(2), of "[]" "[]" ampm] by simp
  also have "splitAt '' '' [] ampm = [ampm]"
    using splitAt_last [OF assms(3), of "[]" "[]"] by simp
  finally show ?thesis by (simp add: split_def)
qed

lemma parseDate_nsw_header:
  assumes "CHR ''<'' \<notin> set title \<union> set day \<union> set h1 \<union> set h2 \<union> set ampm"
    and "CHR '' '' \<notin> set h1 \<union> set h2 \<union> set ampm"
  shows "parseDate_nsw M (title @ ''<br>'' @ day @ ''<br>'' @ h1 @ '' - '' @ h2 @ '' '' @ ampm) =
     Inr \<lparr>utc = toDate M (add M (tz_format M (day @ h2 @ ampm) ''D MMMM YYYYha'' ''Australia/Melbourne'')
                            (if h2 @ ampm = ''12am'' then 1 else 0) ''day''),
          local = format M (add M (tz_format M (day @ h2 @ ampm) ''D MMMM YYYYha'' ''Australia/Melbourne'')
                            (if h2 @ ampm = ''12am'' then 1 else 0) ''day'')\<rparr>"
proof -
  let ?range = "h1 @ '' - '' @ h2 @ '' '' @ ampm"
  from assms(1) have "CHR ''<'' \<notin> set ?range" by simp
  with assms(1) have d: "split ''<br>'' (title @ ''<br>'' @ day @ ''<br>'' @ ?range) = [title, day, ?range]"
    by (intro split_header) auto
  from assms(2) have t: "split '' '' ?range = [h1, ''-'', h2, ampm]"
    by (intro split_range) auto
  have i2: "item [title, day, ?range] 2 = Some ?range" by (simp add: item_def)
  have i1: "item [title, day, ?range] 1 = Some day" by (simp add: item_def)
  have tm: "js_plus (item [h1, ''-'', h2, ampm] 2) (item [h1, ''-'', h2, ampm] 3) = h2 @ ampm"
    by (simp add: item_def js_plus_def)
  have dt: "js_plus (Some day) (Some (h2 @ ampm)) = day @ h2 @ ampm"
    by (simp add: js_plus_def)
  show ?thesis
    by (simp only: parseDate_nsw_def d Let_def i2 i1 t tm dt option.case dateOffset_def)
qed

lemma siteCells_invariant:
  assumes "\<forall>x\<in>set ms. P x"
    and "\<And>p u v a. P (base\<lparr>parameter := p, unit := u, value := v, averagingPeriod := a\<rparr>)"
  shows "\<forall>x\<in>set (siteCells indexParams base cs colCounter ms). P x"
  using assms(1)
proof (induction cs arbitrary: colCounter ms)
  case Nil
  then show ?case by simp
next
  case (Cons c cs)
  let ?cc = "colCounter + colIncrement c"
  show ?case
  proof (cases "findIndex (\<lambda>p. col p = ?cc) indexParams")
    case None
    with Cons.IH [OF Cons.prems, of ?cc] show ?thesis by (simp add: Let_def)
  next
    case (Some i)
    show ?thesis
    proof (cases "text c = []")
      case True
      with Some Cons.IH [OF Cons.prems, of ?cc] show ?thesis by (simp add: Let_def)
    next
      case False
      let ?m = "base\<lparr>parameter := indexParam.parameter (indexParams ! i),
                unit := lookup units_nsw (indexParam.parameter (indexParams ! i)),
                value := Number (Some (JString (text c))),
                averagingPeriod :=
                  \<lparr>period.value = Number_digits (avgPeriod (indexParams ! i)), period.unit = ''hours''\<rparr>\<rparr>"
      from Cons.prems assms(2) have "\<forall>x\<in>set (ms @ [?m]). P x" by simp
      from Cons.IH [OF this, of ?cc] Some False show ?thesis by (simp add: Let_def)
    qed
  qed
qed

lemma eachRow_nsw_invariant:
  assumes "\<And>region site p u v a.
      P ((base_nsw region site parsed)\<lparr>parameter := p, unit := u, value := v, averagingPeriod := a\<rparr>)"
  shows "eachRow_nsw parsed rs idy indexParams region ms = Inr out \<Longrightarrow>
     \<forall>x\<in>set ms. P x \<Longrightarrow> \<forall>x\<in>set out. P x"
proof (induction rs arbitrary: idy indexParams region ms)
  case Nil
  then show ?case by simp
next
  case (Cons r rs)
  show ?case
  proof (cases "idy = 0 \<or> idy = 1")
    case True
    with Cons.prems(1) obtain ip where "eachRow_nsw parsed rs (Suc idy) ip region ms = Inr out"
      by (cases "idy = 0") (auto simp: andThen_Inr)
    from Cons.IH [OF this Cons.prems(2)] show ?thesis .
  next
    case False
    show ?thesis
    proof (cases "site_length r = 0")
      case True
      with False Cons.prems(1) have "eachRow_nsw parsed rs (Suc idy) indexParams region ms = Inr out"
        by simp
      from Cons.IH [OF this Cons.prems(2)] show ?thesis .
    next
      case site: False
      let ?region = "if region_text r \<noteq> [] then region_text r else region"
      let ?ms = "siteCells indexParams (base_nsw ?region (site_text r) parsed) (children r)
                   (if region_length r = 0 then 1 else 0) ms"
      from False site Cons.prems(1)
      have run: "eachRow_nsw parsed rs (Suc idy) indexParams ?region ?ms = Inr out"
        by (simp add: Let_def)
      have "\<forall>x\<in>set ?ms. P x"
        by (rule siteCells_invariant [OF Cons.prems(2)]) (rule assms)
      from Cons.IH [OF run this] show ?thesis .
    qed
  qed
qed

lemma set_finalMeasurements: "set (finalMeasurements ms) \<subseteq> set ms"
  using finalMeasurements_inv [of ms] by blast

lemma formatData_nsw_invariant:
  assumes run: "formatData_nsw M acceptable conv doc = Inr out"
    and built: "\<And>parsed region site p u v a. Q parsed \<Longrightarrow>
      P ((base_nsw region site parsed)\<lparr>parameter := p, unit := u, value := v, averagingPeriod := a\<rparr>)"
    and conv: "\<And>x u v. P x \<Longrightarrow> P (x\<lparr>unit := u, value := v\<rparr>)"
    and parsed: "\<And>s parsed. date_html doc = Some s \<Longrightarrow> parseDate_nsw M s = Inr parsed \<Longrightarrow> Q parsed"
  shows "result.name out = ''unused'' \<and> (\<forall>x\<in>set (measurements out). P x)"
proof -
  from run obtain s parsed ms where s: "date_html doc = Some s"
    and p: "parseDate_nsw M s = Inr parsed"
    and ms: "eachRow_nsw parsed (rows doc) 0 [] [] [] = Inr ms"
    and out: "out = \<lparr>result.name = ''unused'',
        measurements = convertUnits conv (removeUnwantedParameters acceptable (finalMeasurements ms))\<rparr>"
    by (cases "date_html doc") (auto simp: formatData_nsw_def andThen_Inr)
  have "\<forall>x\<in>set ms. P x"
    by (rule eachRow_nsw_invariant [OF _ ms]) (auto intro: built parsed [OF s p])
  with set_finalMeasurements [of ms]
  have "\<forall>x\<in>set (removeUnwantedParameters acceptable (finalMeasurements ms)). P x"
    by (auto simp: removeUnwantedParameters_def)
  then have "\<forall>x\<in>set (convertUnits conv (removeUnwantedParameters acceptable (finalMeasurements ms))). P x"
    by (auto simp: convertUnits_def intro: conv)
  with out show ?thesis by simp
qed

section \<open>What a measurement of the HTML adapter is built from\<close>

lemma siteCells_built:
  assumes "\<forall>x\<in>set ms. P x" and "set cs \<subseteq> C"
    and "\<And>c p h. c \<in> C \<Longrightarrow> text c \<noteq> [] \<Longrightarrow>
      P (base\<lparr>parameter := p, unit := lookup units_nsw p,
               value := Number (Some (JString (text c))),
               averagingPeriod := \<lparr>period.value = Number_digits h, period.unit = ''hours''\<rparr>\<rparr>)"
  shows "\<forall>x\<in>set (siteCells indexParams base cs colCounter ms). P x"
  using assms(1,2)
proof (induction cs arbitrary: colCounter ms)
  case Nil
  then show ?case by simp
next
  case (Cons c cs)
  let ?cc = "colCounter + colIncrement c"
  from Cons.prems(2) have c: "c \<in> C" and cs: "set cs \<subseteq> C" by auto
  show ?case
  proof (cases "findIndex (\<lambda>p. col p = ?cc) indexParams")
    case None
    with Cons.IH [OF Cons.prems(1) cs, of ?cc] show ?thesis by (simp add: Let_def)
  next
    case (Some i)
    show ?thesis
    proof (cases "text c = []")
      case True
      with Some Cons.IH [OF Cons.prems(1) cs, of ?cc] show ?thesis by (simp add: Let_def)
    next
      case False
      let ?m = "base\<lparr>parameter := indexParam.parameter (indexParams ! i),
                unit := lookup units_nsw (indexParam.parameter (indexParams ! i)),
                value := Number (Some (JString (text c))),
                averagingPeriod :=
                  \<lparr>period.value = Number_digits (avgPeriod (indexParams ! i)), period.unit = ''hours''\<rparr>\<rparr>"
      from assms(3) [OF c False] have "P ?m" .
      with Cons.prems(1) have "\<forall>x\<in>set (ms @ [?m]). P x" by simp
      from Cons.IH [OF this cs, of ?cc] Some False show ?thesis by (simp add: Let_def)
    qed
  qed
qed

lemma eachRow_nsw_built:
  assumes built: "\<And>r region c p h. r \<in> R \<Longrightarrow> site_length r \<noteq> 0 \<Longrightarrow>
      region = [] \<or> region \<in> region_text ` R \<Longrightarrow> c \<in> set (children r) \<Longrightarrow> text c \<noteq> [] \<Longrightarrow>
      P ((base_nsw region (site_text r) parsed)
           \<lparr>parameter := p, unit := lookup units_nsw p,
            value := Number (Some (JString (text c))),
            averagingPeriod := \<lparr>period.value = Number_digits h, period.unit = ''hours''\<rparr>\<rparr>)"
  shows "eachRow_nsw parsed rs idy indexParams region ms = Inr out \<Longrightarrow> set rs \<subseteq> R \<Longrightarrow>
     region = [] \<or> region \<in> region_text ` R \<Longrightarrow> \<forall>x\<in>set ms. P x \<Longrightarrow> \<forall>x\<in>set out. P x"
proof (induction rs arbitrary: idy indexParams region ms)
  case Nil
  then show ?case by simp
next
  case (Cons r rs)
  from Cons.prems(2) have r: "r \<in> R" and rs: "set rs \<subseteq> R" by auto
  show ?case
  proof (cases "idy = 0 \<or> idy = 1")
    case True
    with Cons.prems(1) obtain ip where "eachRow_nsw parsed rs (Suc idy) ip region ms = Inr out"
      by (cases "idy = 0") (auto simp: andThen_Inr)
    from Cons.IH [OF this rs Cons.prems(3,4)] show ?thesis .
  next
    case False
    show ?thesis
    proof (cases "site_length r = 0")
      case True
      with False Cons.prems(1) have "eachRow_nsw parsed rs (Suc idy) indexParams region ms = Inr out"
        by simp
      from Cons.IH [OF this rs Cons.prems(3,4)] show ?thesis .
    next
      case site: False
      let ?region = "if region_text r \<noteq> [] then region_text r else region"
      let ?ms = "siteCells indexParams (base_nsw ?region (site_text r) parsed) (children r)
                   (if region_length r = 0 then 1 else 0) ms"
      from False site Cons.prems(1)
      have run: "eachRow_nsw parsed rs (Suc idy) indexParams ?region ?ms = Inr out"
        by (simp add: Let_def)
      from r Cons.prems(3) have reg: "?region = [] \<or> ?region \<in> region_text ` R" by auto
      have "\<forall>x\<in>set ?ms. P x"
      proof (rule siteCells_built [OF Cons.prems(4) subset_refl])
        fix c p h assume "c \<in> set (children r)" "text c \<noteq> []"
        from built [OF r site reg this]
        show "P ((base_nsw ?region (site_text r) parsed)
           \<lparr>parameter := p, unit := lookup units_nsw p,
            value := Number (Some (JString (text c))),
            averagingPeriod := \<lparr>period.value = Number_digits h, period.unit = ''hours''\<rparr>\<rparr>)" .
      qed
      from Cons.IH [OF run rs reg this] show ?thesis .
    qed
  qed
qed

lemma convertUnits_member:
  assumes "m \<in> set (convertUnits conv (removeUnwantedParameters acceptable (finalMeasurements ms)))"
  shows "\<exists>b\<in>set ms. parameter b \<in> set acceptable \<and>
     m = b\<lparr>unit := fst (conv (unit b, value b)), value := snd (conv (unit b, value b))\<rparr>"
proof -
  from assms obtain b where b: "b \<in> set (removeUnwantedParameters acceptable (finalMeasurements ms))"
    and m: "m = b\<lparr>unit := fst (conv (unit b, value b)), value := snd (conv (unit b, value b))\<rparr>"
    unfolding convertUnits_def by auto
  from b have "b \<in> set (finalMeasurements ms)" and "parameter b \<in> set acceptable"
    by (simp_all add: removeUnwantedParameters_def)
  with set_finalMeasurements [of ms] m show ?thesis by blast
qed

lemma formatData_nsw_built:
  assumes run: "formatData_nsw M acceptable conv doc = Inr out"
    and m: "m \<in> set (measurements out)"
  shows "\<exists>s parsed. date_html doc = Some s \<and> parseDate_nsw M s = Inr parsed \<and>
     (\<exists>r\<in>set (rows doc). \<exists>c\<in>set (children r). \<exists>region p h.
        site_length r \<noteq> 0 \<and> text c \<noteq> [] \<and> p \<in> set acceptable \<and>
        (region = [] \<or> region \<in> region_text ` set (rows doc)) \<and>
        m = (base_nsw region (site_text r) parsed)
              \<lparr>parameter := p,
               unit := fst (conv (lookup units_nsw p, Number (Some (JString (text c))))),
               value := snd (conv (lookup units_nsw p, Number (Some (JString (text c))))),
               averagingPeriod := \<lparr>period.value = Number_digits h, period.unit = ''hours''\<rparr>\<rparr>)"
proof -
  from run obtain s parsed ms where s: "date_html doc = Some s"
    and p: "parseDate_nsw M s = Inr parsed"
    and ms: "eachRow_nsw parsed (rows doc) 0 [] [] [] = Inr ms"
    and out: "out = \<lparr>result.name = ''unused'',
        measurements = convertUnits conv (removeUnwantedParameters acceptable (finalMeasurements ms))\<rparr>"
    by (cases "date_html doc") (auto simp: formatData_nsw_def andThen_Inr)
  define P where "P = (\<lambda>b. \<exists>r\<in>set (rows doc). \<exists>c\<in>set (children r). \<exists>region p h.
        site_length r \<noteq> 0 \<and> text c \<noteq> [] \<and>
        (region = [] \<or> region \<in> region_text ` set (rows doc)) \<and>
        b = (base_nsw region (site_text r) parsed)
              \<lparr>parameter := p, unit := lookup units_nsw p,
               value := Number (Some (JString (text c))),
               averagingPeriod := \<lparr>period.value = Number_digits h, period.unit = ''hours''\<rparr>\<rparr>)"
  have "\<forall>b\<in>set ms. P b"
  proof (rule eachRow_nsw_built [OF _ ms subset_refl])
    show "[] = [] \<or> [] \<in> region_text ` set (rows doc)" by simp
    show "\<forall>x\<in>set []. P x" by simp
  next
    fix r region c p h
    assume "r \<in> set (rows doc)" "site_length r \<noteq> 0"
      "region = [] \<or> region \<in> region_text ` set (rows doc)" "c \<in> set (children r)" "text c \<noteq> []"
    then show "P ((base_nsw region (site_text r) parsed)
           \<lparr>parameter := p, unit := lookup units_nsw p,
            value := Number (Some (JString (text c))),
            averagingPeriod := \<lparr>period.value = Number_digits h, period.unit = ''hours''\<rparr>\<rparr>)"
      unfolding P_def by blast
  qed
  moreover from m out obtain b where "b \<in> set ms" and acc: "parameter b \<in> set acceptable"
    and mb: "m = b\<lparr>unit := fst (conv (unit b, value b)), value := snd (conv (unit b, value b))\<rparr>"
    using convertUnits_member [of m conv acceptable ms] by auto
  ultimately have "P b" by blast
  then obtain r c region p h where r: "r \<in> set (rows doc)" and c: "c \<in> set (children r)"
    and site: "site_length r \<noteq> 0" and t: "text c \<noteq> []"
    and reg: "region = [] \<or> region \<in> region_text ` set (rows doc)"
    and b: "b = (base_nsw region (site_text r) parsed)
              \<lparr>parameter := p, unit := lookup units_nsw p,
               value := Number (Some (JString (text c))),
               averagingPeriod := \<lparr>period.value = Number_digits h, period.unit = ''hours''\<rparr>\<rparr>"
    unfolding P_def by blast
  from acc b have pa: "p \<in> set acceptable" by simp
  from mb b have "m = (base_nsw region (site_text r) parsed)
              \<lparr>parameter := p,
               unit := fst (conv (lookup units_nsw p, Number (Some (JString (text c))))),
               value := snd (conv (lookup units_nsw p, Number (Some (JString (text c))))),
               averagingPeriod := \<lparr>period.value = Number_digits h, period.unit = ''hours''\<rparr>\<rparr>"
    by simp
  with s p r c site t reg pa show ?thesis by blast
qed

section \<open>What the measurements of both adapters hold\<close>

lemma forEach_member:
  "forEach f xs = Inr ms \<Longrightarrow> m \<in> set ms \<Longrightarrow> \<exists>x\<in>set xs. \<exists>ys. f x = Inr ys \<and> m \<in> set ys"
proof (induction xs arbitrary: ms)
  case Nil
  then show ?case by simp
next
  case (Cons x xs)
  from Cons.prems(1) obtain ys zs where ys: "f x = Inr ys" and zs: "forEach f xs = Inr zs"
    and ms: "ms = ys @ zs"
    by (auto simp: andThen_Inr)
  from Cons.prems(2) ms consider "m \<in> set ys" | "m \<in> set zs" by auto
  then show ?case
  proof cases
    case 1
    with ys show ?thesis by auto
  next
    case 2
    from Cons.IH [OF zs 2] show ?thesis by auto
  qed
qed

lemma baseMeasurement_fields:
  assumes "baseMeasurement M src (Some (JObject kvs)) = Inr base"
  shows "location base = map_of kvs ''name'' \<and> city base = ''Canberra'' \<and>
     country base = Some ''AU'' \<and> date base = parseDate_act M (map_of kvs ''datetime'') \<and>
     sourceName base = Some (source.name src) \<and> sourceType base = Some ''government'' \<and>
     mobile base = Some False \<and> (\<exists>c. coordinates base = Some (Entry c)) \<and>
     attribution base =
       [\<lparr>attrib.name = ''Health Protection Service, ACT Government'',
         attrib.url = ''https://www.data.act.gov.au/Environment/Air-Quality-Monitoring-Data/94a5-zqnn''\<rparr>] \<and>
     averagingPeriod base = \<lparr>period.value = 1, period.unit = ''hours''\<rparr>"
proof -
  obtain a where a: "get (map_of kvs ''gps'') ''latitude'' = a" by simp
  obtain b where b: "get (map_of kvs ''gps'') ''longitude'' = b" by simp
  from assms a b show ?thesis
    by (cases a; cases b) (auto simp: baseMeasurement_def andThen_def)
qed

lemma eachRow_act_member:
  assumes "eachRow_act M src (Some r) = Inr ys" and "m \<in> set ys"
  shows "\<exists>v. get (Some r) ''datetime'' = Inr v \<and> date m = parseDate_act M v \<and>
     city m = ''Canberra'' \<and> country m = Some ''AU'' \<and> sourceName m = Some (source.name src) \<and>
     sourceType m = Some ''government'' \<and> mobile m = Some False \<and>
     (\<exists>c. coordinates m = Some (Entry c)) \<and>
     attribution m =
       [\<lparr>attrib.name = ''Health Protection Service, ACT Government'',
         attrib.url = ''https://www.data.act.gov.au/Environment/Air-Quality-Monitoring-Data/94a5-zqnn''\<rparr>] \<and>
     averagingPeriod m = \<lparr>period.value = 1, period.unit = ''hours''\<rparr> \<and>
     parameter m \<in> snd ` set types \<and> (\<exists>u. unit m = Some (Entry u))"
proof -
  have "valid_row (Some r)"
    using assms(1) eachRow_act_invalid [of "Some r" M src] by (cases "valid_row (Some r)") auto
  then obtain kvs where r: "r = JObject kvs"
    by (auto simp: valid_row_def split: json.splits)
  from assms(1) obtain base where base: "baseMeasurement M src (Some (JObject kvs)) = Inr base"
    and ys: "eachType base (Some (JObject kvs)) types = Inr ys"
    unfolding r by (auto simp: eachRow_act_def andThen_Inr)
  let ?f = "\<lambda>(t, p). base\<lparr>parameter := p, value := Number (map_of kvs t),
                              unit := lookup units_act p\<rparr>"
  from ys have "ys = map ?f (filter (\<lambda>(t, p). map_of kvs t \<noteq> None) types)"
    unfolding eachType_object by (rule Inr_inject [symmetric])
  with assms(2) have "m \<in> set (map ?f (filter (\<lambda>(t, p). map_of kvs t \<noteq> None) types))"
    by (rule subst [where P = "\<lambda>z. m \<in> set z", rotated])
  then have "m \<in> ?f ` set (filter (\<lambda>(t, p). map_of kvs t \<noteq> None) types)"
    by (simp only: set_map)
  then obtain tp where tp: "m = ?f tp" "tp \<in> set types" by auto
  then obtain p v where mp: "m = base\<lparr>parameter := p, value := v, unit := lookup units_act p\<rparr>"
    and p: "p \<in> snd ` set types"
    by (cases tp) force
  from tp(2) units_of_types p have "\<exists>u. lookup units_act p = Some (Entry u)" by auto
  with mp p baseMeasurement_fields [OF base] show ?thesis unfolding r by simp
qed

lemma formatData_act_member:
  assumes "formatData_act M data src = Inr out" and "m \<in> set (measurements out)"
  shows "result.name out = ''unused'' \<and>
     (\<exists>rs. data = JArray rs \<and> (\<exists>r\<in>set rs. \<exists>ys. eachRow_act M src (Some r) = Inr ys \<and> m \<in> set ys))"
proof -
  from assms(1) obtain rs where data: "data = JArray rs"
    by (cases data) (simp_all add: formatData_act_def)
  from assms(1) obtain ms where ms: "forEach (\<lambda>r. eachRow_act M src (Some r)) rs = Inr ms"
    and out: "out = \<lparr>result.name = ''unused'', measurements = ms\<rparr>"
    unfolding data by (auto simp: formatData_act_def andThen_Inr)
  from assms(2) out have "m \<in> set ms" by simp
  from forEach_member [OF ms this] data out show ?thesis by auto
qed

lemma formatData_act_name:
  "formatData_act M data src = Inr out \<Longrightarrow> result.name out = ''unused''"
  by (cases data) (auto simp: formatData_act_def andThen_Inr)

lemma parseDate_nsw_moment:
  assumes "parseDate_nsw M s = Inr parsed"
  shows "\<exists>day time. parsed =
     \<lparr>utc = toDate M (add M (tz_format M (day @ time) ''D MMMM YYYYha'' ''Australia/Melbourne'')
                          (if time = ''12am'' then 1 else 0) ''day''),
      local = format M (add M (tz_format M (day @ time) ''D MMMM YYYYha'' ''Australia/Melbourne'')
                          (if time = ''12am'' then 1 else 0) ''day'')\<rparr>"
proof -
  let ?d = "split ''<br>'' s"
  from assms obtain d2 where d2: "item ?d 2 = Some d2"
    by (cases "item ?d 2") (simp_all add: parseDate_nsw_def Let_def)
  then have i1: "item ?d 1 = Some (?d ! 1)"
    by (simp add: item_def split: if_splits)
  define time where "time = js_plus (item (split '' '' d2) 2) (item (split '' '' d2) 3)"
  have dt: "js_plus (Some (?d ! 1)) (Some time) = ?d ! 1 @ time"
    by (simp add: js_plus_def)
  have "parseDate_nsw M s =
     Inr \<lparr>utc = toDate M (add M (tz_format M (?d ! 1 @ time) ''D MMMM YYYYha'' ''Australia/Melbourne'')
                          (dateOffset time) ''day''),
      local = format M (add M (tz_format M (?d ! 1 @ time) ''D MMMM YYYYha'' ''Australia/Melbourne'')
                          (dateOffset time) ''day'')\<rparr>"
    by (simp only: parseDate_nsw_def Let_def d2 i1 option.case time_def [symmetric] dt)
  with assms have "parsed =
     \<lparr>utc = toDate M (add M (tz_format M (?d ! 1 @ time) ''D MMMM YYYYha'' ''Australia/Melbourne'')
                          (if time = ''12am'' then 1 else 0) ''day''),
      local = format M (add M (tz_format M (?d ! 1 @ time) ''D MMMM YYYYha'' ''Australia/Melbourne'')
                          (if time = ''12am'' then 1 else 0) ''day'')\<rparr>"
    by (simp only: dateOffset_def sum.inject)
  then show ?thesis by (intro exI)
qed

lemma parseDate_nsw_explicit:
  assumes "parseDate_nsw M s = Inr parsed"
  shows "2 < length (split ''<br>'' s) \<and>
     read_from M
       (let d = split ''<br>'' s;
            timeString = split '' '' (d ! 2);
            time = js_plus (item timeString 2) (item timeString 3)
        in add M (tz_format M (d ! 1 @ time) ''D MMMM YYYYha'' ''Australia/Melbourne'')
             (if time = ''12am'' then 1 else 0) ''day'')
       parsed"
proof -
  let ?d = "split ''<br>'' s"
  from assms obtain d2 where d2: "item ?d 2 = Some d2"
    by (cases "item ?d 2") (simp_all add: parseDate_nsw_def Let_def)
  then have len: "2 < length ?d" and d2': "d2 = ?d ! 2"
    by (simp_all add: item_def split: if_splits)
  from len have i1: "item ?d 1 = Some (?d ! 1)" by (simp add: item_def)
  define time where "time = js_plus (item (split '' '' d2) 2) (item (split '' '' d2) 3)"
  have dt: "js_plus (Some (?d ! 1)) (Some time) = ?d ! 1 @ time"
    by (simp add: js_plus_def)
  have "parseDate_nsw M s =
     Inr \<lparr>utc = toDate M (add M (tz_format M (?d ! 1 @ time) ''D MMMM YYYYha'' ''Australia/Melbourne'')
                          (dateOffset time) ''day''),
      local = format M (add M (tz_format M (?d ! 1 @ time) ''D MMMM YYYYha'' ''Australia/Melbourne'')
                          (dateOffset time) ''day'')\<rparr>"
    by (simp only: parseDate_nsw_def Let_def d2 i1 option.case time_def [symmetric] dt)
  with assms have "read_from M
      (add M (tz_format M (?d ! 1 @ time) ''D MMMM YYYYha'' ''Australia/Melbourne'')
         (if time = ''12am'' then 1 else 0) ''day'') parsed"
    by (auto simp only: dateOffset_def sum.inject read_from_def stamp.simps)
  then have "read_from M
       (let d = split ''<br>'' s;
            timeString = split '' '' (d ! 2);
            time = js_plus (item timeString 2) (item timeString 3)
        in add M (tz_format M (d ! 1 @ time) ''D MMMM YYYYha'' ''Australia/Melbourne'')
             (if time = ''12am'' then 1 else 0) ''day'')
       parsed"
    unfolding time_def d2' by (simp only: Let_def)
  with len show ?thesis ..
qed

lemma formatData_nsw_parsed:
  assumes "formatData_nsw M acceptable conv doc = Inr out"
  shows "\<exists>s parsed. date_html doc = Some s \<and> parseDate_nsw M s = Inr parsed \<and>
     (\<forall>m\<in>set (measurements out). date m = parsed)"
proof -
  from assms obtain s parsed where s: "date_html doc = Some s"
    and p: "parseDate_nsw M s = Inr parsed"
    by (cases "date_html doc") (auto simp: formatData_nsw_def andThen_Inr)
  have "result.name out = ''unused'' \<and> (\<forall>x\<in>set (measurements out). date x = parsed)"
    by (rule formatData_nsw_invariant [OF assms, where Q = "\<lambda>q. q = parsed"])
       (use s p in \<open>auto simp: base_nsw_def\<close>)
  with s p show ?thesis by blast
qed

section \<open>Dates and schema of the measurements\<close>

lemma lower_O3: "toLowerCase ''O3'' = ''o3''"
  by code_simp

lemma rozelle_rows:
  "eachRow_nsw parsed (rows rozelle_page) 0 [] [] [] =
     Inr [rozelle_ozone\<lparr>date := parsed\<rparr>]"
  by (simp add: rozelle_page_def rozelle_ozone_def plain_def colIncrement_def andThen_def
      lower_O3 base_nsw_def units_nsw_def Number_digits_def double_def one_enat_def coordinates_of_def
      coordinates_nsw_def lookup_def Let_def)

lemma rozelle_date:
  "parseDate_nsw stub_moment ''Hourly readings<br>13 December 2015<br>10 - 11 pm''
     = Inr \<lparr>utc = Some 0, local = ''13 December 201511pm''\<rparr>"
  by code_simp

lemma rozelle_format:
  "formatData_nsw stub_moment [''o3''] conv rozelle_page =
     Inr \<lparr>result.name = ''unused'',
          measurements =
            [rozelle_ozone\<lparr>unit := fst (conv (Some (Entry ''pphm''), Number (Some (JString ''2.1'')))),
                           value := snd (conv (Some (Entry ''pphm''), Number (Some (JString ''2.1''))))\<rparr>]\<rparr>"
proof -
  have d: "date_html rozelle_page = Some ''Hourly readings<br>13 December 2015<br>10 - 11 pm''"
    by (simp add: rozelle_page_def)
  have r: "rozelle_ozone\<lparr>date := \<lparr>utc = Some 0, local = ''13 December 201511pm''\<rparr>\<rparr> = rozelle_ozone"
    by (simp add: rozelle_ozone_def)
  have f: "finalMeasurements [rozelle_ozone] = [rozelle_ozone]"
    by (simp add: finalMeasurements_def keepShortest_def)
  have k: "removeUnwantedParameters [''o3''] [rozelle_ozone] = [rozelle_ozone]"
    by (simp add: removeUnwantedParameters_def rozelle_ozone_def)
  have c: "convertUnits conv [rozelle_ozone] =
     [rozelle_ozone\<lparr>unit := fst (conv (Some (Entry ''pphm''), Number (Some (JString ''2.1'')))),
                    value := snd (conv (Some (Entry ''pphm''), Number (Some (JString ''2.1''))))\<rparr>]"
    by (simp add: convertUnits_def rozelle_ozone_def)
  show ?thesis
    by (simp only: formatData_nsw_def d option.case rozelle_date andThen_def sum.case
        rozelle_rows r f k c)
qed


lemma monash_format:
  "formatData_act stub_moment (JArray [monash]) act_source =
     Inr \<lparr>result.name = ''unused'',
          measurements =
            [\<lparr>location = Some (JString ''Monash''), city = ''Canberra'', country = Some ''AU'',
              date = \<lparr>utc = Some 0, local = ''2020-01-01T00:00:00.000''\<rparr>,
              sourceName = Some ''Australia - ACT'', sourceType = Some ''government'',
              mobile = Some False,
              coordinates = Some (Entry \<lparr>latitude = Number (Some (JString ''-35.418302'')),
                                         longitude = Number (Some (JString ''149.094018''))\<rparr>),
              attribution =
                [\<lparr>attrib.name = ''Health Protection Service, ACT Government'',
                  attrib.url = ''https://www.data.act.gov.au/Environment/Air-Quality-Monitoring-Data/94a5-zqnn''\<rparr>],
              averagingPeriod = \<lparr>period.value = 1, period.unit = ''hours''\<rparr>,
              parameter = ''no2'', value = Number (Some (JString ''0.003'')), unit = Some (Entry ''ppm'')\<rparr>,
             \<lparr>location = Some (JString ''Monash''), city = ''Canberra'', country = Some ''AU'',
              date = \<lparr>utc = Some 0, local = ''2020-01-01T00:00:00.000''\<rparr>,
              sourceName = Some ''Australia - ACT'', sourceType = Some ''government'',
              mobile = Some False,
              coordinates = Some (Entry \<lparr>latitude = Number (Some (JString ''-35.418302'')),
                                         longitude = Number (Some (JString ''149.094018''))\<rparr>),
              attribution =
                [\<lparr>attrib.name = ''Health Protection Service, ACT Government'',
                  attrib.url = ''https://www.data.act.gov.au/Environment/Air-Quality-Monitoring-Data/94a5-zqnn''\<rparr>],
              averagingPeriod = \<lparr>period.value = 1, period.unit = ''hours''\<rparr>,
              parameter = ''pm25'', value = Number (Some (JString ''12.1'')), unit = Some (Entry micrograms)\<rparr>]\<rparr>"
  by code_simp

lemma rozelle_moment:
  "(let d = split ''<br>'' ''Hourly readings<br>13 December 2015<br>10 - 11 pm'';
        timeString = split '' '' (d ! 2);
        time = js_plus (item timeString 2) (item timeString 3)
    in add stub_moment (tz_format stub_moment (d ! 1 @ time) ''D MMMM YYYYha'' ''Australia/Melbourne'')
         (if time = ''12am'' then 1 else 0) ''day'')
   = add stub_moment (tz_format stub_moment ''13 December 201511pm'' ''D MMMM YYYYha'' ''Australia/Melbourne'')
       0 ''day''"
  by code_simp

text \<open>
  C6. Every measurement of either formatter has its \<open>date.utc\<close> and \<open>date.local\<close> read
  from one moment: \<open>utc\<close> is \<open>toDate()\<close> of it and \<open>local\<close> is \<open>format()\<close> of it. In the
  JSON adapter the output is the measurements of the rows of the body, row after row,
  and the moment of a measurement is the \<open>datetime\<close> of its own row, parsed in
  Australia/Sydney. In the HTML adapter it is one moment for the whole page: the text
  of the date cell, its second part followed by pieces 2 and 3 of its third part,
  parsed in Australia/Melbourne and moved by the day offset.
\<close>

theorem dates_read_from_one_moment:
  "(formatData_act M data src = Inr out \<longrightarrow>
      (\<exists>rs mss. data = JArray rs \<and> measurements out = concat mss \<and>
         list_all2
           (\<lambda>r ms. eachRow_act M src (Some r) = Inr ms \<and>
              (\<exists>v. get (Some r) ''datetime'' = Inr v \<and>
                 (\<forall>m\<in>set ms. read_from M (tz M v ''Australia/Sydney'') (date m))))
           rs mss)) \<and>
   (formatData_nsw M acceptable conv doc = Inr out' \<longrightarrow>
      (\<exists>s. date_html doc = Some s \<and> 2 < length (split ''<br>'' s) \<and>
         (\<forall>m\<in>set (measurements out').
            parseDate_nsw M s = Inr (date m) \<and>
            read_from M
              (let d = split ''<br>'' s;
                   timeString = split '' '' (d ! 2);
                   time = js_plus (item timeString 2) (item timeString 3)
               in add M (tz_format M (d ! 1 @ time) ''D MMMM YYYYha'' ''Australia/Melbourne'')
                    (if time = ''12am'' then 1 else 0) ''day'')
              (date m))))"
proof (rule conjI; rule impI)
  assume run: "formatData_act M data src = Inr out"
  then obtain rs mss where data: "data = JArray rs"
    and rows: "list_all2 (\<lambda>r ms. eachRow_act M src (Some r) = Inr ms) rs mss"
    and out: "out = \<lparr>result.name = ''unused'', measurements = concat mss\<rparr>"
    unfolding formatData_act_rows by blast
  have "list_all2
           (\<lambda>r ms. eachRow_act M src (Some r) = Inr ms \<and>
              (\<exists>v. get (Some r) ''datetime'' = Inr v \<and>
                 (\<forall>m\<in>set ms. read_from M (tz M v ''Australia/Sydney'') (date m))))
           rs mss"
    using rows
  proof (rule list_all2_mono)
    fix r ms
    assume row: "eachRow_act M src (Some r) = Inr ms"
    have "valid_row (Some r)"
      using row eachRow_act_invalid [of "Some r" M src] by (cases "valid_row (Some r)") auto
    then obtain kvs where r: "r = JObject kvs"
      by (auto simp: valid_row_def split: json.splits)
    have v: "get (Some r) ''datetime'' = Inr (map_of kvs ''datetime'')" by (simp add: r)
    have "\<forall>m\<in>set ms. read_from M (tz M (map_of kvs ''datetime'') ''Australia/Sydney'') (date m)"
    proof
      fix m assume "m \<in> set ms"
      from eachRow_act_member [OF row this] v
      have "date m = parseDate_act M (map_of kvs ''datetime'')" by auto
      then show "read_from M (tz M (map_of kvs ''datetime'') ''Australia/Sydney'') (date m)"
        by (simp add: read_from_def parseDate_act_def Let_def)
    qed
    with row v show "eachRow_act M src (Some r) = Inr ms \<and>
              (\<exists>v. get (Some r) ''datetime'' = Inr v \<and>
                 (\<forall>m\<in>set ms. read_from M (tz M v ''Australia/Sydney'') (date m)))"
      by blast
  qed
  moreover from out have "measurements out = concat mss" by simp
  ultimately show "\<exists>rs mss. data = JArray rs \<and> measurements out = concat mss \<and>
         list_all2
           (\<lambda>r ms. eachRow_act M src (Some r) = Inr ms \<and>
              (\<exists>v. get (Some r) ''datetime'' = Inr v \<and>
                 (\<forall>m\<in>set ms. read_from M (tz M v ''Australia/Sydney'') (date m))))
           rs mss"
    using data by blast
next
  assume run: "formatData_nsw M acceptable conv doc = Inr out'"
  from formatData_nsw_parsed [OF run] obtain s parsed where s: "date_html doc = Some s"
    and p: "parseDate_nsw M s = Inr parsed" and all: "\<forall>m\<in>set (measurements out'). date m = parsed"
    by blast
  note e = parseDate_nsw_explicit [OF p]
  from e have len: "2 < length (split ''<br>'' s)" ..
  have "\<forall>m\<in>set (measurements out').
            parseDate_nsw M s = Inr (date m) \<and>
            read_from M
              (let d = split ''<br>'' s;
                   timeString = split '' '' (d ! 2);
                   time = js_plus (item timeString 2) (item timeString 3)
               in add M (tz_format M (d ! 1 @ time) ''D MMMM YYYYha'' ''Australia/Melbourne'')
                    (if time = ''12am'' then 1 else 0) ''day'')
              (date m)"
  proof
    fix m assume "m \<in> set (measurements out')"
    with all have "date m = parsed" by blast
    with p e show "parseDate_nsw M s = Inr (date m) \<and>
            read_from M
              (let d = split ''<br>'' s;
                   timeString = split '' '' (d ! 2);
                   time = js_plus (item timeString 2) (item timeString 3)
               in add M (tz_format M (d ! 1 @ time) ''D MMMM YYYYha'' ''Australia/Melbourne'')
                    (if time = ''12am'' then 1 else 0) ''day'')
              (date m)"
      by blast
  qed
  with s len show "\<exists>s. date_html doc = Some s \<and> 2 < length (split ''<br>'' s) \<and>
         (\<forall>m\<in>set (measurements out').
            parseDate_nsw M s = Inr (date m) \<and>
            read_from M
              (let d = split ''<br>'' s;
                   timeString = split '' '' (d ! 2);
                   time = js_plus (item timeString 2) (item timeString 3)
               in add M (tz_format M (d ! 1 @ time) ''D MMMM YYYYha'' ''Australia/Melbourne'')
                    (if time = ''12am'' then 1 else 0) ''day'')
              (date m))"
    by blast
qed

theorem dates_read_from_one_moment_witness:
  "(\<exists>out. formatData_act stub_moment (JArray [monash]) act_source = Inr out \<and>
      length (measurements out) = 2 \<and>
      list_all (\<lambda>m. read_from stub_moment
                        (tz stub_moment (Some (JString ''2020-01-01T00:00:00.000'')) ''Australia/Sydney'')
                        (date m))
        (measurements out)) \<and>
   (\<exists>out'. formatData_nsw stub_moment [''o3''] id rozelle_page = Inr out' \<and>
      length (measurements out') = 1 \<and>
      list_all (\<lambda>m. read_from stub_moment
                        (add stub_moment
                           (tz_format stub_moment ''13 December 201511pm'' ''D MMMM YYYYha''
                              ''Australia/Melbourne'')
                           0 ''day'')
                        (date m))
        (measurements out'))"
proof (rule conjI)
  from monash_format obtain out where
    run: "formatData_act stub_moment (JArray [monash]) act_source = Inr out"
    and len: "length (measurements out) = 2"
    by simp
  from dates_read_from_one_moment [THEN conjunct1, THEN mp, OF run]
  obtain rs mss where rs: "JArray [monash] = JArray rs" and cat: "measurements out = concat mss"
    and rows: "list_all2
           (\<lambda>r ms. eachRow_act stub_moment act_source (Some r) = Inr ms \<and>
              (\<exists>v. get (Some r) ''datetime'' = Inr v \<and>
                 (\<forall>m\<in>set ms. read_from stub_moment (tz stub_moment v ''Australia/Sydney'') (date m))))
           rs mss"
    by blast
  from rs have "rs = [monash]" by simp
  with rows obtain ms v where mss: "mss = [ms]" and v: "get (Some monash) ''datetime'' = Inr v"
    and all: "\<forall>m\<in>set ms. read_from stub_moment (tz stub_moment v ''Australia/Sydney'') (date m)"
    by (auto simp: list_all2_Cons1)
  from v have "v = Some (JString ''2020-01-01T00:00:00.000'')" by (simp add: monash_def)
  with all cat mss have "list_all (\<lambda>m. read_from stub_moment
      (tz stub_moment (Some (JString ''2020-01-01T00:00:00.000'')) ''Australia/Sydney'') (date m))
      (measurements out)"
    by (simp add: list_all_iff)
  from run len this show "\<exists>out. formatData_act stub_moment (JArray [monash]) act_source = Inr out \<and>
      length (measurements out) = 2 \<and>
      list_all (\<lambda>m. read_from stub_moment
                        (tz stub_moment (Some (JString ''2020-01-01T00:00:00.000'')) ''Australia/Sydney'')
                        (date m))
        (measurements out)"
    by (intro exI [of _ out] conjI)
next
  from rozelle_format [of id] obtain out' where
    run: "formatData_nsw stub_moment [''o3''] id rozelle_page = Inr out'"
    and len: "length (measurements out') = 1"
    by simp
  from dates_read_from_one_moment [THEN conjunct2, THEN mp, OF run]
  obtain s where s: "date_html rozelle_page = Some s"
    and all: "\<forall>m\<in>set (measurements out').
      read_from stub_moment
        (let d = split ''<br>'' s;
             timeString = split '' '' (d ! 2);
             time = js_plus (item timeString 2) (item timeString 3)
         in add stub_moment (tz_format stub_moment (d ! 1 @ time) ''D MMMM YYYYha'' ''Australia/Melbourne'')
              (if time = ''12am'' then 1 else 0) ''day'')
        (date m)"
    by blast
  from s have "s = ''Hourly readings<br>13 December 2015<br>10 - 11 pm''"
    by (simp add: rozelle_page_def)
  with all have "list_all (\<lambda>m. read_from stub_moment
        (add stub_moment (tz_format stub_moment ''13 December 201511pm'' ''D MMMM YYYYha''
           ''Australia/Melbourne'') 0 ''day'') (date m)) (measurements out')"
    by (simp only: rozelle_moment list_all_iff)
  from run len this show "\<exists>out'. formatData_nsw stub_moment [''o3''] id rozelle_page = Inr out' \<and>
      length (measurements out') = 1 \<and>
      list_all (\<lambda>m. read_from stub_moment
                        (add stub_moment
                           (tz_format stub_moment ''13 December 201511pm'' ''D MMMM YYYYha''
                              ''Australia/Melbourne'')
                           0 ''day'')
                        (date m))
        (measurements out')"
    by (intro exI [of _ out'] conjI)
qed

text \<open>
  C7. On a header of three parts, a title, a day and a range of hours "h1 - h2 ampm",
  \<open>parseDate\<close> reads the day with the hour the range ends at (\<open>h2\<close> and \<open>ampm\<close>) and
  adds one day when that hour reads 12am, and no day otherwise. \<open>formatData\<close> parses
  the header cell once: every measurement of the page carries that one date.
\<close>

theorem parseDate_nsw_end_of_range:
  "(CHR ''<'' \<notin> set title \<union> set day \<union> set h1 \<union> set h2 \<union> set ampm \<and>
    CHR '' '' \<notin> set h1 \<union> set h2 \<union> set ampm \<longrightarrow>
      parseDate_nsw M (title @ ''<br>'' @ day @ ''<br>'' @ h1 @ '' - '' @ h2 @ '' '' @ ampm) =
        Inr \<lparr>utc = toDate M (add M (tz_format M (day @ h2 @ ampm) ''D MMMM YYYYha'' ''Australia/Melbourne'')
                               (if h2 @ ampm = ''12am'' then 1 else 0) ''day''),
             local = format M (add M (tz_format M (day @ h2 @ ampm) ''D MMMM YYYYha'' ''Australia/Melbourne'')
                               (if h2 @ ampm = ''12am'' then 1 else 0) ''day'')\<rparr>) \<and>
   (formatData_nsw M acceptable conv doc = Inr out \<longrightarrow>
      (\<exists>s parsed. date_html doc = Some s \<and> parseDate_nsw M s = Inr parsed \<and>
         (\<forall>m\<in>set (measurements out). date m = parsed)))"
  using parseDate_nsw_header [of title day h1 h2 ampm M]
    formatData_nsw_parsed [of M acceptable conv doc out]
  by blast

theorem parseDate_nsw_end_of_range_witness:
  "parseDate_nsw stub_moment (''Hourly readings'' @ ''<br>'' @ ''13 December 2015'' @ ''<br>'' @ ''11'' @ '' - '' @ ''12'' @ '' '' @ ''am'')
     = Inr \<lparr>utc = Some 86400000, local = ''13 December 201512am''\<rparr> \<and>
   parseDate_nsw stub_moment (''Hourly readings'' @ ''<br>'' @ ''13 December 2015'' @ ''<br>'' @ ''10'' @ '' - '' @ ''11'' @ '' '' @ ''pm'')
     = Inr \<lparr>utc = Some 0, local = ''13 December 201511pm''\<rparr> \<and>
   (\<exists>out. formatData_nsw stub_moment [''o3''] id rozelle_page = Inr out \<and>
      map date (measurements out) = [\<lparr>utc = Some 0, local = ''13 December 201511pm''\<rparr>])"
proof (intro conjI)
  have a: "CHR ''<'' \<notin> set ''Hourly readings'' \<union> set ''13 December 2015'' \<union> set ''11'' \<union> set ''12'' \<union> set ''am'' \<and>
    CHR '' '' \<notin> set ''11'' \<union> set ''12'' \<union> set ''am''" by simp
  from parseDate_nsw_end_of_range [THEN conjunct1, THEN mp, OF a, of stub_moment]
  show "parseDate_nsw stub_moment (''Hourly readings'' @ ''<br>'' @ ''13 December 2015'' @ ''<br>'' @ ''11'' @ '' - '' @ ''12'' @ '' '' @ ''am'')
     = Inr \<lparr>utc = Some 86400000, local = ''13 December 201512am''\<rparr>"
    by (simp add: stub_moment_def)
  have b: "CHR ''<'' \<notin> set ''Hourly readings'' \<union> set ''13 December 2015'' \<union> set ''10'' \<union> set ''11'' \<union> set ''pm'' \<and>
    CHR '' '' \<notin> set ''10'' \<union> set ''11'' \<union> set ''pm''" by simp
  from parseDate_nsw_end_of_range [THEN conjunct1, THEN mp, OF b, of stub_moment]
  show "parseDate_nsw stub_moment (''Hourly readings'' @ ''<br>'' @ ''13 December 2015'' @ ''<br>'' @ ''10'' @ '' - '' @ ''11'' @ '' '' @ ''pm'')
     = Inr \<lparr>utc = Some 0, local = ''13 December 201511pm''\<rparr>"
    by (simp add: stub_moment_def)
  from rozelle_format [of id] obtain out where
    run: "formatData_nsw stub_moment [''o3''] id rozelle_page = Inr out"
    and len: "length (measurements out) = 1"
    by simp
  from parseDate_nsw_end_of_range [THEN conjunct2, THEN mp, OF run]
  obtain s parsed where s: "date_html rozelle_page = Some s"
    and p: "parseDate_nsw stub_moment s = Inr parsed"
    and all: "\<forall>m\<in>set (measurements out). date m = parsed" by blast
  from s have "s = ''Hourly readings<br>13 December 2015<br>10 - 11 pm''"
    by (simp add: rozelle_page_def)
  with p rozelle_date have "parsed = \<lparr>utc = Some 0, local = ''13 December 201511pm''\<rparr>" by simp
  with all len have "map date (measurements out) = [\<lparr>utc = Some 0, local = ''13 December 201511pm''\<rparr>]"
    by (cases "measurements out") auto
  with run show "\<exists>out. formatData_nsw stub_moment [''o3''] id rozelle_page = Inr out \<and>
      map date (measurements out) = [\<lparr>utc = Some 0, local = ''13 December 201511pm''\<rparr>]"
    by (intro exI [of _ out] conjI)
qed



section \<open>The keys of the measurements\<close>

lemma coordinates_nsw_distinct: "distinct (map fst coordinates_nsw)"
  by (simp add: coordinates_nsw_def)

lemma coordinates_of_table:
  "((site, lat, lon) \<in> set coordinates_nsw \<longrightarrow>
      coordinates_of site =
        Some (Entry \<lparr>latitude = Number (Some (JNumber lat)), longitude = Number (Some (JNumber lon))\<rparr>)) \<and>
   (site \<notin> fst ` set coordinates_nsw \<longrightarrow>
      coordinates_of site = (if site \<in> set object_prototype then Some (Member site) else None))"
proof (rule conjI; rule impI)
  let ?table = "map (\<lambda>(name, lat, lon).
                    (name, \<lparr>latitude = Number (Some (JNumber lat)),
                            longitude = Number (Some (JNumber lon))\<rparr>))
               coordinates_nsw"
  have keys: "map fst ?table = map fst coordinates_nsw"
    by (simp add: case_prod_beta comp_def)
  {
    assume "(site, lat, lon) \<in> set coordinates_nsw"
    then have "(site, \<lparr>latitude = Number (Some (JNumber lat)), longitude = Number (Some (JNumber lon))\<rparr>)
        \<in> set ?table"
      by force
    moreover have "distinct (map fst ?table)"
      by (subst keys) (rule coordinates_nsw_distinct)
    ultimately have "map_of ?table site =
        Some \<lparr>latitude = Number (Some (JNumber lat)), longitude = Number (Some (JNumber lon))\<rparr>"
      by (rule map_of_is_SomeI [rotated])
    then show "coordinates_of site =
        Some (Entry \<lparr>latitude = Number (Some (JNumber lat)), longitude = Number (Some (JNumber lon))\<rparr>)"
      by (simp add: coordinates_of_def lookup_def)
  }
  {
    assume "site \<notin> fst ` set coordinates_nsw"
    with keys have "site \<notin> fst ` set ?table" by (metis set_map)
    then have "map_of ?table site = None" by (rule map_of_eq_None_iff [THEN iffD2])
    then show "coordinates_of site = (if site \<in> set object_prototype then Some (Member site) else None)"
      by (simp add: coordinates_of_def lookup_def)
  }
qed

text \<open>
  The measurement the HTML adapter returns for a page with one site and one ozone
  reading, whatever the unit conversion does: it has no \<open>country\<close>, \<open>sourceName\<close>,
  \<open>sourceType\<close> or \<open>mobile\<close>.
\<close>

theorem measurements_schema_counterexample:
  "\<forall>conv.
     formatData_nsw stub_moment [''o3''] conv rozelle_page =
       Inr \<lparr>result.name = ''unused'',
            measurements =
              [rozelle_ozone\<lparr>unit := fst (conv (Some (Entry ''pphm''), Number (Some (JString ''2.1'')))),
                             value := snd (conv (Some (Entry ''pphm''), Number (Some (JString ''2.1''))))\<rparr>]\<rparr> \<and>
     \<not> canonical
         (rozelle_ozone\<lparr>unit := fst (conv (Some (Entry ''pphm''), Number (Some (JString ''2.1'')))),
                        value := snd (conv (Some (Entry ''pphm''), Number (Some (JString ''2.1''))))\<rparr>)"
proof (intro allI conjI)
  fix conv :: "string found option \<times> jsnumber \<Rightarrow> string found option \<times> jsnumber"
  show "formatData_nsw stub_moment [''o3''] conv rozelle_page =
       Inr \<lparr>result.name = ''unused'',
            measurements =
              [rozelle_ozone\<lparr>unit := fst (conv (Some (Entry ''pphm''), Number (Some (JString ''2.1'')))),
                             value := snd (conv (Some (Entry ''pphm''), Number (Some (JString ''2.1''))))\<rparr>]\<rparr>"
    by (rule rozelle_format)
  show "\<not> canonical
         (rozelle_ozone\<lparr>unit := fst (conv (Some (Entry ''pphm''), Number (Some (JString ''2.1'')))),
                        value := snd (conv (Some (Entry ''pphm''), Number (Some (JString ''2.1''))))\<rparr>)"
    by (simp add: canonical_def rozelle_ozone_def)
qed

text \<open>
  C8, amended. The result of either adapter is \<open>{name: 'unused', measurements}\<close>. A
  measurement of the JSON adapter has every key of the canonical schema, with the
  constants of the adapter. A measurement of the HTML adapter has no \<open>country\<close>,
  \<open>sourceName\<close>, \<open>sourceType\<close> or \<open>mobile\<close>; its \<open>date\<close> is the parsed date cell, its
  \<open>attribution\<close> the one of the adapter, its \<open>averagingPeriod\<close> in hours, its \<open>parameter\<close>
  an accepted one, its \<open>city\<close> a region text of the page or empty, its \<open>location\<close> the
  site of a row with a site, its \<open>value\<close> and \<open>unit\<close> the conversion of a cell of that row
  and of the unit looked up for the parameter, and its \<open>coordinates\<close> what the lookup of
  the site finds: the entry of a site of the table, and nothing for a site that is
  neither in the table nor the name of a member of \<open>Object.prototype\<close>.
\<close>

theorem measurements_schema:
  "(formatData_act M data src = Inr out \<longrightarrow>
      result.name out = ''unused'' \<and>
      (\<forall>m\<in>set (measurements out).
         canonical m \<and> city m = ''Canberra'' \<and> country m = Some ''AU'' \<and>
         sourceName m = Some (source.name src) \<and> sourceType m = Some ''government'' \<and>
         mobile m = Some False \<and>
         averagingPeriod m = \<lparr>period.value = 1, period.unit = ''hours''\<rparr> \<and>
         attribution m =
           [\<lparr>attrib.name = ''Health Protection Service, ACT Government'',
             attrib.url = ''https://www.data.act.gov.au/Environment/Air-Quality-Monitoring-Data/94a5-zqnn''\<rparr>] \<and>
         (\<exists>v. date m = parseDate_act M v) \<and>
         parameter m \<in> snd ` set types \<and> (\<exists>u. unit m = Some (Entry u)))) \<and>
   (formatData_nsw M acceptable conv doc = Inr out' \<longrightarrow>
      result.name out' = ''unused'' \<and>
      (\<exists>s parsed. date_html doc = Some s \<and> parseDate_nsw M s = Inr parsed \<and>
         (\<forall>m\<in>set (measurements out').
            country m = None \<and> sourceName m = None \<and> sourceType m = None \<and> mobile m = None \<and>
            date m = parsed \<and>
            attribution m =
              [\<lparr>attrib.name = ''State of New South Wales (Department of Planning, Industry and Environment)'',
                attrib.url = ''https://www.dpie.nsw.gov.au/''\<rparr>] \<and>
            (\<exists>h. averagingPeriod m = \<lparr>period.value = Number_digits h, period.unit = ''hours''\<rparr>) \<and>
            parameter m \<in> set acceptable \<and>
            (city m = [] \<or> city m \<in> region_text ` set (rows doc)) \<and>
            (\<exists>r\<in>set (rows doc). \<exists>c\<in>set (children r).
               site_length r \<noteq> 0 \<and> text c \<noteq> [] \<and>
               location m = Some (JString (site_text r)) \<and>
               coordinates m = coordinates_of (site_text r) \<and>
               unit m = fst (conv (lookup units_nsw (parameter m), Number (Some (JString (text c))))) \<and>
               value m = snd (conv (lookup units_nsw (parameter m), Number (Some (JString (text c))))))))) \<and>
   ((site, lat, lon) \<in> set coordinates_nsw \<longrightarrow>
      coordinates_of site =
        Some (Entry \<lparr>latitude = Number (Some (JNumber lat)), longitude = Number (Some (JNumber lon))\<rparr>)) \<and>
   (site \<notin> fst ` set coordinates_nsw \<and> site \<notin> set object_prototype \<longrightarrow> coordinates_of site = None)"
proof -
  have act: "result.name out = ''unused'' \<and>
      (\<forall>m\<in>set (measurements out).
         canonical m \<and> city m = ''Canberra'' \<and> country m = Some ''AU'' \<and>
         sourceName m = Some (source.name src) \<and> sourceType m = Some ''government'' \<and>
         mobile m = Some False \<and>
         averagingPeriod m = \<lparr>period.value = 1, period.unit = ''hours''\<rparr> \<and>
         attribution m =
           [\<lparr>attrib.name = ''Health Protection Service, ACT Government'',
             attrib.url = ''https://www.data.act.gov.au/Environment/Air-Quality-Monitoring-Data/94a5-zqnn''\<rparr>] \<and>
         (\<exists>v. date m = parseDate_act M v) \<and>
         parameter m \<in> snd ` set types \<and> (\<exists>u. unit m = Some (Entry u)))"
    if run: "formatData_act M data src = Inr out"
  proof (rule conjI [OF formatData_act_name [OF run]], rule ballI)
    fix m
    assume m: "m \<in> set (measurements out)"
    from formatData_act_member [OF run m] obtain r ys where
      ys: "eachRow_act M src (Some r) = Inr ys" "m \<in> set ys" by blast
    from eachRow_act_member [OF ys] obtain v where
      f: "date m = parseDate_act M v" "city m = ''Canberra''" "country m = Some ''AU''"
        "sourceName m = Some (source.name src)" "sourceType m = Some ''government''"
        "mobile m = Some False" "\<exists>c. coordinates m = Some (Entry c)"
        "attribution m =
           [\<lparr>attrib.name = ''Health Protection Service, ACT Government'',
             attrib.url = ''https://www.data.act.gov.au/Environment/Air-Quality-Monitoring-Data/94a5-zqnn''\<rparr>]"
        "averagingPeriod m = \<lparr>period.value = 1, period.unit = ''hours''\<rparr>"
        "parameter m \<in> snd ` set types" "\<exists>u. unit m = Some (Entry u)"
      by blast
    from f(3-7) have "canonical m" by (auto simp: canonical_def)
    with f show "canonical m \<and> city m = ''Canberra'' \<and> country m = Some ''AU'' \<and>
         sourceName m = Some (source.name src) \<and> sourceType m = Some ''government'' \<and>
         mobile m = Some False \<and>
         averagingPeriod m = \<lparr>period.value = 1, period.unit = ''hours''\<rparr> \<and>
         attribution m =
           [\<lparr>attrib.name = ''Health Protection Service, ACT Government'',
             attrib.url = ''https://www.data.act.gov.au/Environment/Air-Quality-Monitoring-Data/94a5-zqnn''\<rparr>] \<and>
         (\<exists>v. date m = parseDate_act M v) \<and>
         parameter m \<in> snd ` set types \<and> (\<exists>u. unit m = Some (Entry u))"
      by blast
  qed
  have nsw: "result.name out' = ''unused'' \<and>
      (\<exists>s parsed. date_html doc = Some s \<and> parseDate_nsw M s = Inr parsed \<and>
         (\<forall>m\<in>set (measurements out').
            country m = None \<and> sourceName m = None \<and> sourceType m = None \<and> mobile m = None \<and>
            date m = parsed \<and>
            attribution m =
              [\<lparr>attrib.name = ''State of New South Wales (Department of Planning, Industry and Environment)'',
                attrib.url = ''https://www.dpie.nsw.gov.au/''\<rparr>] \<and>
            (\<exists>h. averagingPeriod m = \<lparr>period.value = Number_digits h, period.unit = ''hours''\<rparr>) \<and>
            parameter m \<in> set acceptable \<and>
            (city m = [] \<or> city m \<in> region_text ` set (rows doc)) \<and>
            (\<exists>r\<in>set (rows doc). \<exists>c\<in>set (children r).
               site_length r \<noteq> 0 \<and> text c \<noteq> [] \<and>
               location m = Some (JString (site_text r)) \<and>
               coordinates m = coordinates_of (site_text r) \<and>
               unit m = fst (conv (lookup units_nsw (parameter m), Number (Some (JString (text c))))) \<and>
               value m = snd (conv (lookup units_nsw (parameter m), Number (Some (JString (text c))))))))"
    if run: "formatData_nsw M acceptable conv doc = Inr out'"
  proof -
    from run have name: "result.name out' = ''unused''"
      by (cases "date_html doc") (auto simp: formatData_nsw_def andThen_Inr)
    from formatData_nsw_parsed [OF run] obtain s parsed where s: "date_html doc = Some s"
      and p: "parseDate_nsw M s = Inr parsed"
      by blast
    have "\<forall>m\<in>set (measurements out').
            country m = None \<and> sourceName m = None \<and> sourceType m = None \<and> mobile m = None \<and>
            date m = parsed \<and>
            attribution m =
              [\<lparr>attrib.name = ''State of New South Wales (Department of Planning, Industry and Environment)'',
                attrib.url = ''https://www.dpie.nsw.gov.au/''\<rparr>] \<and>
            (\<exists>h. averagingPeriod m = \<lparr>period.value = Number_digits h, period.unit = ''hours''\<rparr>) \<and>
            parameter m \<in> set acceptable \<and>
            (city m = [] \<or> city m \<in> region_text ` set (rows doc)) \<and>
            (\<exists>r\<in>set (rows doc). \<exists>c\<in>set (children r).
               site_length r \<noteq> 0 \<and> text c \<noteq> [] \<and>
               location m = Some (JString (site_text r)) \<and>
               coordinates m = coordinates_of (site_text r) \<and>
               unit m = fst (conv (lookup units_nsw (parameter m), Number (Some (JString (text c))))) \<and>
               value m = snd (conv (lookup units_nsw (parameter m), Number (Some (JString (text c))))))"
    proof
      fix m assume m: "m \<in> set (measurements out')"
      from formatData_nsw_built [OF run m] obtain s' parsed' where s': "date_html doc = Some s'"
        and p': "parseDate_nsw M s' = Inr parsed'"
        and ex: "\<exists>r\<in>set (rows doc). \<exists>c\<in>set (children r). \<exists>region q h.
            site_length r \<noteq> 0 \<and> text c \<noteq> [] \<and> q \<in> set acceptable \<and>
            (region = [] \<or> region \<in> region_text ` set (rows doc)) \<and>
            m = (base_nsw region (site_text r) parsed')
              \<lparr>parameter := q,
               unit := fst (conv (lookup units_nsw q, Number (Some (JString (text c))))),
               value := snd (conv (lookup units_nsw q, Number (Some (JString (text c))))),
               averagingPeriod := \<lparr>period.value = Number_digits h, period.unit = ''hours''\<rparr>\<rparr>"
        by (elim exE conjE)
      from s s' have "s' = s" by simp
      with p p' have same: "parsed' = parsed" by simp
      from ex obtain r c region q h where r: "r \<in> set (rows doc)" and c: "c \<in> set (children r)"
        and site: "site_length r \<noteq> 0" and t: "text c \<noteq> []" and q: "q \<in> set acceptable"
        and reg: "region = [] \<or> region \<in> region_text ` set (rows doc)"
        and mb': "m = (base_nsw region (site_text r) parsed')
              \<lparr>parameter := q,
               unit := fst (conv (lookup units_nsw q, Number (Some (JString (text c))))),
               value := snd (conv (lookup units_nsw q, Number (Some (JString (text c))))),
               averagingPeriod := \<lparr>period.value = Number_digits h, period.unit = ''hours''\<rparr>\<rparr>"
        by (elim bexE exE conjE)
      from mb' same have mb: "m = (base_nsw region (site_text r) parsed)
              \<lparr>parameter := q,
               unit := fst (conv (lookup units_nsw q, Number (Some (JString (text c))))),
               value := snd (conv (lookup units_nsw q, Number (Some (JString (text c))))),
               averagingPeriod := \<lparr>period.value = Number_digits h, period.unit = ''hours''\<rparr>\<rparr>"
        by (simp only:)
      from mb have fields: "country m = None" "sourceName m = None" "sourceType m = None"
        "mobile m = None" "date m = parsed"
        "attribution m =
              [\<lparr>attrib.name = ''State of New South Wales (Department of Planning, Industry and Environment)'',
                attrib.url = ''https://www.dpie.nsw.gov.au/''\<rparr>]"
        "averagingPeriod m = \<lparr>period.value = Number_digits h, period.unit = ''hours''\<rparr>"
        "parameter m = q" "city m = region"
        "location m = Some (JString (site_text r))"
        "coordinates m = coordinates_of (site_text r)"
        "unit m = fst (conv (lookup units_nsw q, Number (Some (JString (text c)))))"
        "value m = snd (conv (lookup units_nsw q, Number (Some (JString (text c)))))"
        by (simp_all add: base_nsw_def)
      from fields(7) have per: "\<exists>h. averagingPeriod m = \<lparr>period.value = Number_digits h, period.unit = ''hours''\<rparr>" ..
      from fields(8) q have par: "parameter m \<in> set acceptable" by simp
      from fields(9) reg have cit: "city m = [] \<or> city m \<in> region_text ` set (rows doc)" by simp
      from fields(10-13) fields(8) site t
      have "site_length r \<noteq> 0 \<and> text c \<noteq> [] \<and>
               location m = Some (JString (site_text r)) \<and>
               coordinates m = coordinates_of (site_text r) \<and>
               unit m = fst (conv (lookup units_nsw (parameter m), Number (Some (JString (text c))))) \<and>
               value m = snd (conv (lookup units_nsw (parameter m), Number (Some (JString (text c)))))"
        by simp
      with r c have cell: "\<exists>r\<in>set (rows doc). \<exists>c\<in>set (children r).
               site_length r \<noteq> 0 \<and> text c \<noteq> [] \<and>
               location m = Some (JString (site_text r)) \<and>
               coordinates m = coordinates_of (site_text r) \<and>
               unit m = fst (conv (lookup units_nsw (parameter m), Number (Some (JString (text c))))) \<and>
               value m = snd (conv (lookup units_nsw (parameter m), Number (Some (JString (text c)))))"
        by blast
      show "country m = None \<and> sourceName m = None \<and> sourceType m = None \<and> mobile m = None \<and>
            date m = parsed \<and>
            attribution m =
              [\<lparr>attrib.name = ''State of New South Wales (Department of Planning, Industry and Environment)'',
                attrib.url = ''https://www.dpie.nsw.gov.au/''\<rparr>] \<and>
            (\<exists>h. averagingPeriod m = \<lparr>period.value = Number_digits h, period.unit = ''hours''\<rparr>) \<and>
            parameter m \<in> set acceptable \<and>
            (city m = [] \<or> city m \<in> region_text ` set (rows doc)) \<and>
            (\<exists>r\<in>set (rows doc). \<exists>c\<in>set (children r).
               site_length r \<noteq> 0 \<and> text c \<noteq> [] \<and>
               location m = Some (JString (site_text r)) \<and>
               coordinates m = coordinates_of (site_text r) \<and>
               unit m = fst (conv (lookup units_nsw (parameter m), Number (Some (JString (text c))))) \<and>
               value m = snd (conv (lookup units_nsw (parameter m), Number (Some (JString (text c))))))"
        by (intro conjI) (rule fields(1), rule fields(2), rule fields(3), rule fields(4),
            rule fields(5), rule fields(6), rule per, rule par, rule cit, rule cell)
    qed
    with name s p show ?thesis by blast
  qed
  note tab = coordinates_of_table [of site lat lon]
  from tab have t1: "(site, lat, lon) \<in> set coordinates_nsw \<longrightarrow>
      coordinates_of site =
        Some (Entry \<lparr>latitude = Number (Some (JNumber lat)), longitude = Number (Some (JNumber lon))\<rparr>)"
    by (rule conjunct1)
  from tab have t2: "site \<notin> fst ` set coordinates_nsw \<and> site \<notin> set object_prototype \<longrightarrow>
      coordinates_of site = None"
    by simp
  show ?thesis
    apply (rule conjI)
     apply (rule impI)
     apply (erule act)
    apply (rule conjI)
     apply (rule impI)
     apply (erule nsw)
    apply (rule conjI)
     apply (rule t1)
    apply (rule t2)
    done
qed

theorem measurements_schema_witness:
  "(\<exists>out. formatData_act stub_moment (JArray [monash]) act_source = Inr out \<and>
      result.name out = ''unused'' \<and> length (measurements out) = 2 \<and>
      list_all (\<lambda>m. canonical m \<and> city m = ''Canberra'' \<and> country m = Some ''AU'' \<and>
                   sourceName m = Some ''Australia - ACT'' \<and> mobile m = Some False)
        (measurements out)) \<and>
   (\<exists>out'. formatData_nsw stub_moment [''o3''] id rozelle_page = Inr out' \<and>
      result.name out' = ''unused'' \<and> length (measurements out') = 1 \<and>
      list_all (\<lambda>m. country m = None \<and> sourceName m = None \<and> sourceType m = None \<and>
                   mobile m = None \<and> parameter m = ''o3'')
        (measurements out')) \<and>
   coordinates_of ''Rozelle'' =
     Some (Entry \<lparr>latitude = Number (Some (JNumber (-33.8658333))),
                  longitude = Number (Some (JNumber 151.1625))\<rparr>) \<and>
   coordinates_of ''Nowhere'' = None"
proof (intro conjI)
  from monash_format obtain out where
    run: "formatData_act stub_moment (JArray [monash]) act_source = Inr out"
    and len: "length (measurements out) = 2"
    by simp
  note act = measurements_schema [where M = stub_moment and data = "JArray [monash]"
      and src = act_source and out = out, THEN conjunct1, THEN mp, OF run]
  from act have name: "result.name out = ''unused''" by (rule conjunct1)
  from act have "\<forall>m\<in>set (measurements out).
      canonical m \<and> city m = ''Canberra'' \<and> country m = Some ''AU'' \<and>
      sourceName m = Some (source.name act_source) \<and> mobile m = Some False"
    by blast
  then have "list_all (\<lambda>m. canonical m \<and> city m = ''Canberra'' \<and> country m = Some ''AU'' \<and>
                   sourceName m = Some ''Australia - ACT'' \<and> mobile m = Some False)
        (measurements out)"
    by (simp add: list_all_iff act_source_def)
  with run name len show "\<exists>out. formatData_act stub_moment (JArray [monash]) act_source = Inr out \<and>
      result.name out = ''unused'' \<and> length (measurements out) = 2 \<and>
      list_all (\<lambda>m. canonical m \<and> city m = ''Canberra'' \<and> country m = Some ''AU'' \<and>
                   sourceName m = Some ''Australia - ACT'' \<and> mobile m = Some False)
        (measurements out)"
    by (intro exI [of _ out] conjI)
next
  from rozelle_format [of id] obtain out' where
    run: "formatData_nsw stub_moment [''o3''] id rozelle_page = Inr out'"
    and len: "length (measurements out') = 1"
    by simp
  note nsw = measurements_schema [where M = stub_moment and acceptable = "[''o3'']" and conv = id
      and doc = rozelle_page and out' = out', THEN conjunct2, THEN conjunct1, THEN mp, OF run]
  from nsw have name: "result.name out' = ''unused''" by (rule conjunct1)
  from nsw have "\<forall>m\<in>set (measurements out').
      country m = None \<and> sourceName m = None \<and> sourceType m = None \<and> mobile m = None \<and>
      parameter m \<in> set [''o3'']"
    by blast
  then have "list_all (\<lambda>m. country m = None \<and> sourceName m = None \<and> sourceType m = None \<and>
                   mobile m = None \<and> parameter m = ''o3'')
        (measurements out')"
    by (simp add: list_all_iff)
  with run name len show "\<exists>out'. formatData_nsw stub_moment [''o3''] id rozelle_page = Inr out' \<and>
      result.name out' = ''unused'' \<and> length (measurements out') = 1 \<and>
      list_all (\<lambda>m. country m = None \<and> sourceName m = None \<and> sourceType m = None \<and>
                   mobile m = None \<and> parameter m = ''o3'')
        (measurements out')"
    by (intro exI [of _ out'] conjI)
next
  have "(''Rozelle'', -33.8658333, 151.1625) \<in> set coordinates_nsw"
    by (simp add: coordinates_nsw_def)
  with measurements_schema [where site = "''Rozelle''" and lat = "-33.8658333" and lon = "151.1625",
      THEN conjunct2, THEN conjunct2, THEN conjunct1]
  show "coordinates_of ''Rozelle'' =
     Some (Entry \<lparr>latitude = Number (Some (JNumber (-33.8658333))),
                  longitude = Number (Some (JNumber 151.1625))\<rparr>)"
    by (rule mp)
next
  have "''Nowhere'' \<notin> fst ` set coordinates_nsw \<and> ''Nowhere'' \<notin> set object_prototype"
    by (simp add: coordinates_nsw_def object_prototype_def)
  with measurements_schema [where site = "''Nowhere''",
      THEN conjunct2, THEN conjunct2, THEN conjunct2]
  show "coordinates_of ''Nowhere'' = None"
    by (rule mp)
qed

end
